theory Spec2Isabelle
  imports Complex_Main
begin

section \<open>Data model\<close>

text \<open>
  The canvas page (\<^verbatim>\<open>ImageGeneratorPage\<close>) and the generation service are embedded
  shallowly. JavaScript numbers are modelled by rationals: every number the code computes
  is a pixel count, a half of one, or a sum of such, all exactly representable. Strings
  are \<^typ>\<open>string\<close>, read as lists of code units below 256; an optional field (\<^verbatim>\<open>f?: T\<close>) is an \<^typ>\<open>'a option\<close>,
  with \<open>None\<close> for \<^verbatim>\<open>undefined\<close>.

  Field names follow the source. Where two interfaces share a field name the name carries
  a suffix: \<open>id_img\<close>, \<open>prompt_img\<close> for \<^verbatim>\<open>ImageInfo.id\<close>, \<^verbatim>\<open>ImageInfo.prompt\<close>;
  \<open>id_gen\<close>, \<open>error_gen\<close> for \<^verbatim>\<open>GeneratedImage.id\<close>, \<^verbatim>\<open>GeneratedImage.error\<close>;
  \<open>error_pv\<close> for the error of the prompt-variant result.
\<close>

record Position =
  x :: rat
  y :: rat

record ImageInfo =
  id_img :: string
  src :: string
  prompt_img :: string
  position :: Position
  parentId :: "string option"
  isLoading :: "bool option"
  isPlaceholder :: "bool option"

record GeneratedImage =
  id_gen :: string
  imageUrl :: "string option"
  promptUsed :: "string option"
  error_gen :: "string option"

text \<open>The part of the container element the page reads through \<^verbatim>\<open>containerRef\<close>.\<close>

record container =
  offsetWidth :: rat
  offsetHeight :: rat
  scrollHeight :: rat

text \<open>
  The hooks of the page component: the \<^verbatim>\<open>useState\<close> cells, the debounced prompt
  returned by \<^verbatim>\<open>useDebounceWithReset\<close>, and the latch \<^verbatim>\<open>isRegeneratingRef.current\<close>.
\<close>

record canvas =
  prompt :: string
  images :: "ImageInfo list"
  selectedImageId :: "string option"
  error :: "string option"
  debouncedPrompt :: string
  isRegeneratingRef :: bool
  isImageDropdownOpen :: bool
  savedImages :: "ImageInfo list"
  isLoadingSavedImages :: bool

definition IMAGE_SIZE :: rat where
  "IMAGE_SIZE = 150"

definition DUPLICATION_OFFSET :: rat where
  "DUPLICATION_OFFSET = 25"

definition GRID_GAP :: rat where
  "GRID_GAP = 20"

definition HEADER_HEIGHT :: rat where
  "HEADER_HEIGHT = 80"

text \<open>JavaScript truthiness of a string and of an optional string.\<close>

definition truthy :: "string \<Rightarrow> bool" where
  "truthy s = (s \<noteq> [])"

definition truthy_opt :: "string option \<Rightarrow> bool" where
  "truthy_opt s = (case s of None \<Rightarrow> False | Some v \<Rightarrow> truthy v)"

text \<open>\<^verbatim>\<open>images.find(img => img.id === i)\<close>: the first entity carrying the id.\<close>

definition find_image :: "string \<Rightarrow> ImageInfo list \<Rightarrow> ImageInfo option" where
  "find_image i imgs = find (\<lambda>img. id_img img = i) imgs"

section \<open>Calls to the outside\<close>

text \<open>
  An awaited call either resolves to a value or rejects. A rejection carries the message
  of the thrown \<^verbatim>\<open>Error\<close>, or \<open>None\<close> when the thrown value is not an \<^verbatim>\<open>Error\<close>.
\<close>

datatype 'a outcome = Returned 'a | Threw "string option"

subsection \<open>\<^verbatim>\<open>openaiService.getPromptVariants\<close>\<close>

record PromptVariants =
  variants :: "string list"
  error_pv :: "string option"

text \<open>
  The argument is what the OpenAI call and \<^verbatim>\<open>JSON.parse\<close> produce: the parsed
  \<^verbatim>\<open>variants\<close> array (\<open>None\<close> when it is missing or not an array), or the exception.
\<close>

definition getPromptVariants :: "string list option outcome \<Rightarrow> PromptVariants" where
  "getPromptVariants response =
     (case response of
        Returned None \<Rightarrow>
          \<lparr>variants = [],
           error_pv = Some ''Failed to extract prompt variants from OpenAI response.''\<rparr>
      | Returned (Some vs) \<Rightarrow> \<lparr>variants = vs, error_pv = None\<rparr>
      | Threw m \<Rightarrow>
          \<lparr>variants = [],
           error_pv = Some (case m of Some msg \<Rightarrow> msg
                            | None \<Rightarrow> ''An unknown error occurred during prompt augmentation.'')\<rparr>)"

subsection \<open>\<^verbatim>\<open>falService\<close>\<close>

text \<open>
  \<^verbatim>\<open>generateImage\<close>: the id is drawn before the \<^verbatim>\<open>try\<close>, so a rejecting
  \<^verbatim>\<open>generateUuid\<close> rejects the whole call; a rejecting Fal call is caught and becomes an
  error result. The second argument is \<^verbatim>\<open>result?.data?.images?.[0]?.url\<close>.
  \<^verbatim>\<open>StoreImageDataDb\<close> catches everything it raises and its result is discarded.
\<close>

definition generateImage ::
  "string \<Rightarrow> string outcome \<Rightarrow> string option outcome \<Rightarrow> GeneratedImage outcome" where
  "generateImage prompt' uuid fal =
     (case uuid of
        Threw m \<Rightarrow> Threw m
      | Returned imageId \<Rightarrow>
          (case fal of
             Returned imageUrl' \<Rightarrow>
               Returned \<lparr>id_gen = imageId, imageUrl = imageUrl', promptUsed = Some prompt',
                         error_gen = None\<rparr>
           | Threw m \<Rightarrow>
               Returned \<lparr>id_gen = [], imageUrl = None, promptUsed = Some prompt',
                         error_gen = Some (case m of Some msg \<Rightarrow> msg
                                           | None \<Rightarrow> ''Unknown error during image generation.'')\<rparr>))"

text \<open>
  \<^verbatim>\<open>generateImageVariations\<close>. The first argument after the prompt is the result of
  \<^verbatim>\<open>getPromptVariants\<close>; \<open>ext\<close> gives, for the call at each index, what
  \<^verbatim>\<open>generateUuid\<close> and Fal do. The relationship records written for the successful
  variants are \<open>loggedRelationships\<close>; they do not influence the returned list.
\<close>

definition augmentationFailed :: "PromptVariants \<Rightarrow> bool" where
  "augmentationFailed promptVariants =
     (truthy_opt (error_pv promptVariants) \<or> variants promptVariants = [])"

definition generateImageVariations ::
  "string \<Rightarrow> PromptVariants \<Rightarrow> (nat \<Rightarrow> string outcome \<times> string option outcome)
     \<Rightarrow> GeneratedImage list" where
  "generateImageVariations originalPrompt promptVariants ext =
     (if augmentationFailed promptVariants then
        (let errorMsg = (if truthy_opt (error_pv promptVariants)
                         then the (error_pv promptVariants)
                         else ''Failed to get prompt variants.'')
         in [\<lparr>id_gen = [], imageUrl = None, promptUsed = Some originalPrompt,
               error_gen = Some (''Prompt Variation Generation failed: '' @ errorMsg)\<rparr>])
      else
        map (\<lambda>(index, variantPrompt).
               case generateImage variantPrompt (fst (ext index)) (snd (ext index)) of
                 Returned g \<Rightarrow> g
               | Threw m \<Rightarrow>
                   \<lparr>id_gen = [], imageUrl = None, promptUsed = Some variantPrompt,
                    error_gen = Some (case m of Some msg \<Rightarrow> ''Unexpected Exception: '' @ msg
                                      | None \<Rightarrow> ''Unexpected generation exception'')\<rparr>)
            (enumerate 0 (variants promptVariants)))"

definition loggedRelationships :: "string \<Rightarrow> GeneratedImage list \<Rightarrow> (string \<times> string) list" where
  "loggedRelationships parentId' results =
     map (\<lambda>variant. (parentId', id_gen variant))
         (filter (\<lambda>v. truthy (id_gen v) \<and> \<not> truthy_opt (error_gen v)) results)"

subsection \<open>\<^verbatim>\<open>supabaseService.saveImageBlob\<close>\<close>

text \<open>
  What the storage backend does during one save: whether the client exists, and the outcome
  of the download (\<^verbatim>\<open>response.ok && response.body\<close>), of reading the blob, of the upload
  (is \<^verbatim>\<open>uploadError\<close> set) and of the database update (is \<^verbatim>\<open>updateError\<close> set).
  The function returns \<^verbatim>\<open>{ error }\<close> on every path and raises on none.
\<close>

record storage =
  supabase :: bool
  download :: "bool outcome"
  blob :: "unit outcome"
  upload :: "bool outcome"
  update :: "bool outcome"

definition caughtMessage :: "string option \<Rightarrow> string option" where
  "caughtMessage m =
     Some (case m of Some msg \<Rightarrow> msg
           | None \<Rightarrow> ''An unexpected error occurred during saveImageBlob.'')"

definition saveImageBlob :: "storage \<Rightarrow> string option" where
  "saveImageBlob s =
     (if \<not> supabase s then Some ''Supabase client not available.''
      else
        (case download s of
           Threw m \<Rightarrow> caughtMessage m
         | Returned ok \<Rightarrow>
             (if \<not> ok then Some ''Failed to download image from URL''
              else
                (case blob s of
                   Threw m \<Rightarrow> caughtMessage m
                 | Returned _ \<Rightarrow>
                     (case upload s of
                        Threw m \<Rightarrow> caughtMessage m
                      | Returned uploadError \<Rightarrow>
                          (if uploadError then Some ''Failed to save Image''
                           else
                             (case update s of
                                Threw m \<Rightarrow> caughtMessage m
                              | Returned updateError \<Rightarrow>
                                  (if updateError then Some ''Failed to save image''
                                   else None))))))))"

section \<open>The page: helpers\<close>

definition clampPositionToBounds :: "Position \<Rightarrow> container option \<Rightarrow> rat \<Rightarrow> Position" where
  "clampPositionToBounds position' container' itemSize =
     (case container' of
        None \<Rightarrow> position'
      | Some c \<Rightarrow>
          (let containerWidth = offsetWidth c;
               containerScrollHeight = scrollHeight c;
               maxX = max 0 (containerWidth - itemSize);
               effectiveHeight = max (offsetHeight c) containerScrollHeight;
               maxY = max 0 (effectiveHeight - itemSize);
               clampedX = max 0 (min (x position') maxX);
               clampedY = max 0 (min (y position') maxY)
           in \<lparr>x = clampedX, y = clampedY\<rparr>))"

text \<open>\<^verbatim>\<open>Array.prototype.findIndex\<close>, with \<open>None\<close> for \<^verbatim>\<open>-1\<close>.\<close>

fun findIndex :: "('a \<Rightarrow> bool) \<Rightarrow> 'a list \<Rightarrow> nat option" where
  "findIndex P [] = None"
| "findIndex P (a # as) =
     (if P a then Some 0 else map_option Suc (findIndex P as))"

text \<open>Decimal rendering of a number inside a template literal.\<close>

fun string_of_nat :: "nat \<Rightarrow> string" where
  "string_of_nat n =
     (if n < 10 then [''0123456789'' ! n]
      else string_of_nat (n div 10) @ [''0123456789'' ! (n mod 10)])"

declare string_of_nat.simps [simp del]

text \<open>
  The asynchronous calls a handler has started and is suspended on. Each value keeps what
  the continuation after the \<^verbatim>\<open>await\<close> has captured.
\<close>

datatype pending =
    RegenerationPending string string
  | VariationsPending string "string list"
  | DuplicatePending ImageInfo Position string
  | SavePending
  | CatalogPending

section \<open>The page: selection and prompt binding\<close>

definition INITIAL_PLACEHOLDER_ID :: string where
  "INITIAL_PLACEHOLDER_ID = ''initial-placeholder''"

definition setPromptAndResetDebounce :: "string \<Rightarrow> canvas \<Rightarrow> canvas" where
  "setPromptAndResetDebounce newValue st = st\<lparr>prompt := newValue, debouncedPrompt := newValue\<rparr>"

definition toggleImageDropdown :: "canvas \<Rightarrow> canvas" where
  "toggleImageDropdown st = st\<lparr>isImageDropdownOpen := \<not> isImageDropdownOpen st\<rparr>"

text \<open>The effect that puts the initial placeholder on an empty canvas.\<close>

definition mountEffect :: "container option \<Rightarrow> canvas \<Rightarrow> canvas" where
  "mountEffect container' st =
     (case container' of
        None \<Rightarrow> st
      | Some c \<Rightarrow>
          (if length (images st) = 0 then
             (let initialX = max 0 ((offsetWidth c - IMAGE_SIZE) / 2);
                  initialY = max 0 ((offsetHeight c - IMAGE_SIZE) / 2);
                  initialPlaceholder =
                    \<lparr>id_img = INITIAL_PLACEHOLDER_ID, src = [], prompt_img = [],
                     position = \<lparr>x = initialX, y = initialY\<rparr>, parentId = None,
                     isLoading = Some False, isPlaceholder = Some True\<rparr>
              in (setPromptAndResetDebounce [] st)
                   \<lparr>images := [initialPlaceholder],
                    selectedImageId := Some INITIAL_PLACEHOLDER_ID\<rparr>)
           else st))"

definition handleSelectImage :: "string \<Rightarrow> canvas \<Rightarrow> canvas" where
  "handleSelectImage i st =
     (if isRegeneratingRef st then st
      else
        (let newPrompt = (case find_image i (images st) of
                            Some selectedImage \<Rightarrow> prompt_img selectedImage
                          | None \<Rightarrow> [])
         in setPromptAndResetDebounce newPrompt (st\<lparr>selectedImageId := Some i\<rparr>)))"

definition handleContainerClick :: "canvas \<Rightarrow> canvas" where
  "handleContainerClick st = setPromptAndResetDebounce [] (st\<lparr>selectedImageId := None\<rparr>)"

definition handlePromptInputChange :: "string \<Rightarrow> canvas \<Rightarrow> canvas" where
  "handlePromptInputChange newPromptValue st = st\<lparr>prompt := newPromptValue\<rparr>"

text \<open>The timer of \<^verbatim>\<open>useDebounceWithReset\<close> fires: the debounced value takes the live one.\<close>

definition debounceTimerFired :: "canvas \<Rightarrow> canvas" where
  "debounceTimerFired st = st\<lparr>debouncedPrompt := prompt st\<rparr>"

definition handleDeleteImage :: "string \<Rightarrow> canvas \<Rightarrow> canvas" where
  "handleDeleteImage i st =
     st\<lparr>images := filter (\<lambda>img. id_img img \<noteq> i) (images st),
        selectedImageId := (if selectedImageId st = Some i then None else selectedImageId st)\<rparr>"

section \<open>The page: regeneration\<close>

text \<open>
  \<^verbatim>\<open>handleRegenerateSelectedImage\<close> up to its \<^verbatim>\<open>await\<close>. The second component lists
  the calls started: none when the latch is taken, \<^verbatim>\<open>generateImage(newPrompt, IMAGE_SIZE)\<close>
  otherwise.
\<close>

definition handleRegenerateSelectedImage_start ::
  "string \<Rightarrow> string \<Rightarrow> canvas \<Rightarrow> canvas \<times> pending list" where
  "handleRegenerateSelectedImage_start imageId newPrompt st =
     (if isRegeneratingRef st then (st, [])
      else
        (st\<lparr>isRegeneratingRef := True,
            error := None,
            images := map (\<lambda>img. if id_img img = imageId then img\<lparr>isLoading := Some True\<rparr> else img)
                          (images st)\<rparr>,
         [RegenerationPending imageId newPrompt]))"

text \<open>
  The rest of the handler, run on the state found when \<^verbatim>\<open>generateImage\<close> settles: the
  \<^verbatim>\<open>try\<close> body, the \<^verbatim>\<open>catch\<close> and, around both, the \<^verbatim>\<open>finally\<close>.
\<close>

definition handleRegenerateSelectedImage_resume ::
  "string \<Rightarrow> string \<Rightarrow> GeneratedImage outcome \<Rightarrow> canvas \<Rightarrow> canvas" where
  "handleRegenerateSelectedImage_resume imageId newPrompt settled st =
     (case settled of
        Returned result \<Rightarrow>
          (if truthy_opt (imageUrl result) then
             st\<lparr>images :=
                  map (\<lambda>img. if id_img img = imageId
                              then img\<lparr>id_img := id_gen result,
                                       src := the (imageUrl result),
                                       prompt_img := (if truthy_opt (promptUsed result)
                                                      then the (promptUsed result)
                                                      else newPrompt),
                                       isLoading := Some False,
                                       isPlaceholder := Some False\<rparr>
                              else img)
                      (images st),
                selectedImageId := Some (id_gen result)\<rparr>
           else
             st\<lparr>error := Some ''An error occurred when generating images.'',
                images := map (\<lambda>img. if id_img img = imageId
                                      then img\<lparr>isLoading := Some False\<rparr> else img)
                              (images st)\<rparr>)
      | Threw m \<Rightarrow>
          st\<lparr>error := Some (if truthy_opt m then the m
                             else ''An error occurred when generating images''),
             images := map (\<lambda>img. if id_img img = imageId
                                   then img\<lparr>isLoading := Some False\<rparr> else img)
                           (images st)\<rparr>)
     \<lparr>isRegeneratingRef := False\<rparr>"

text \<open>
  \<^verbatim>\<open>String.prototype.trim\<close> strips white space and line terminators from both ends.
  Among the code units below 256 these are tab, line feed, vertical tab, form feed,
  carriage return, space and the no-break space U+00A0.
\<close>

definition isWhiteSpace :: "char \<Rightarrow> bool" where
  "isWhiteSpace ch =
     (ch \<in> set [CHR 0x09, CHR 0x0A, CHR 0x0B, CHR 0x0C, CHR 0x0D, CHR '' '', CHR 0xA0])"

definition trim :: "string \<Rightarrow> string" where
  "trim s = rev (dropWhile isWhiteSpace (rev (dropWhile isWhiteSpace s)))"

text \<open>
  The effect on \<^verbatim>\<open>[debouncedPrompt, selectedImageId]\<close>. It reads the \<^verbatim>\<open>images\<close> of the
  render that scheduled it, which is the state it runs on.
\<close>

definition regenerationEffect :: "canvas \<Rightarrow> canvas \<times> pending list" where
  "regenerationEffect st =
     (case selectedImageId st of
        None \<Rightarrow> (st, [])
      | Some sid \<Rightarrow>
          (if truthy sid \<and> truthy (trim (debouncedPrompt st)) \<and> \<not> isRegeneratingRef st then
             (case find_image sid (images st) of
                None \<Rightarrow> (st, [])
              | Some selectedImage \<Rightarrow>
                  (if prompt_img selectedImage \<noteq> debouncedPrompt st
                   then handleRegenerateSelectedImage_start sid (debouncedPrompt st) st
                   else (st, [])))
           else (st, [])))"

text \<open>
  The debounced prompt settles: the timer fires and hands the live prompt to
  \<^verbatim>\<open>setDebouncedValue\<close>. The effect above is registered with the dependencies
  \<^verbatim>\<open>[debouncedPrompt, selectedImageId, handleRegenerateSelectedImage]\<close>, of which only
  the first can differ here: it runs when the debounced prompt has changed, and not when
  the timer hands over the value already held.
\<close>

definition debouncedPromptSettles :: "canvas \<Rightarrow> canvas \<times> pending list" where
  "debouncedPromptSettles st =
     (let st' = debounceTimerFired st
      in if debouncedPrompt st' \<noteq> debouncedPrompt st then regenerationEffect st'
         else (st', []))"

section \<open>The page: variations\<close>

definition placeholderId :: "string \<Rightarrow> nat \<Rightarrow> nat \<Rightarrow> string" where
  "placeholderId parentId' index now =
     parentId' @ ''-placeholder-'' @ string_of_nat index @ ''-'' @ string_of_nat now"

text \<open>
  \<^verbatim>\<open>handleGenerateVariations\<close> up to its \<^verbatim>\<open>await\<close>; \<open>now index\<close> is what
  \<^verbatim>\<open>Date.now()\<close> returns in the iteration for \<open>index\<close>.
\<close>

definition handleGenerateVariations_start ::
  "container option \<Rightarrow> (nat \<Rightarrow> nat) \<Rightarrow> string \<Rightarrow> string \<Rightarrow> canvas \<Rightarrow> canvas \<times> pending list" where
  "handleGenerateVariations_start container' now parentId' parentPrompt st =
     (case find_image parentId' (images st) of
        None \<Rightarrow> (st\<lparr>error := Some ''Could not find the parent image.''\<rparr>, [])
      | Some parentImage \<Rightarrow>
          (let offset = IMAGE_SIZE + GRID_GAP;
               parentPos = position parentImage;
               placeholderPositions =
                 [\<lparr>x = x parentPos, y = y parentPos - offset\<rparr>,
                  \<lparr>x = x parentPos, y = y parentPos + offset\<rparr>,
                  \<lparr>x = x parentPos - offset, y = y parentPos\<rparr>,
                  \<lparr>x = x parentPos + offset, y = y parentPos\<rparr>];
               placeholderIds =
                 map (\<lambda>(index, pos). placeholderId parentId' index (now index))
                     (enumerate 0 placeholderPositions);
               placeholderImages =
                 map (\<lambda>(index, pos).
                        \<lparr>id_img = placeholderId parentId' index (now index),
                         src = [],
                         prompt_img = ''Loading variation for: '' @ parentPrompt,
                         position = clampPositionToBounds pos container' IMAGE_SIZE,
                         parentId = Some parentId',
                         isLoading = Some True,
                         isPlaceholder = Some True\<rparr>)
                     (enumerate 0 placeholderPositions)
           in (st\<lparr>error := None, images := images st @ placeholderImages\<rparr>,
               [VariationsPending parentPrompt placeholderIds])))"

text \<open>
  The body of \<^verbatim>\<open>results.forEach\<close> inside the functional update: the working copy
  \<^verbatim>\<open>newImages\<close> and the flag \<^verbatim>\<open>updateOccurred\<close> are threaded through.
\<close>

fun reconcileStep ::
  "string \<Rightarrow> string list \<Rightarrow> ImageInfo list \<times> bool \<Rightarrow> nat \<times> GeneratedImage
     \<Rightarrow> ImageInfo list \<times> bool" where
  "reconcileStep parentPrompt placeholderIds (newImages, updateOccurred) (index, result) =
     (if index < length placeholderIds \<and> truthy (placeholderIds ! index) then
        (case findIndex (\<lambda>img. id_img img = placeholderIds ! index) newImages of
           None \<Rightarrow> (newImages, updateOccurred)
         | Some placeholderIndex \<Rightarrow>
             (if truthy_opt (error_gen result) \<or> \<not> truthy (id_gen result)
                   \<or> \<not> truthy_opt (imageUrl result)
              then (take placeholderIndex newImages @ drop (Suc placeholderIndex) newImages,
                    updateOccurred)
              else (newImages[placeholderIndex :=
                      (newImages ! placeholderIndex)
                        \<lparr>id_img := id_gen result,
                         src := the (imageUrl result),
                         prompt_img := (if truthy_opt (promptUsed result)
                                        then the (promptUsed result)
                                        else ''Variant of: '' @ parentPrompt),
                         isLoading := Some False,
                         isPlaceholder := Some False\<rparr>],
                    True)))
      else (newImages, updateOccurred))"

definition reconcile ::
  "string \<Rightarrow> string list \<Rightarrow> GeneratedImage list \<Rightarrow> ImageInfo list \<Rightarrow> ImageInfo list \<times> bool" where
  "reconcile parentPrompt placeholderIds results prevImages =
     foldl (reconcileStep parentPrompt placeholderIds) (prevImages, False) (enumerate 0 results)"

text \<open>
  The rest of \<^verbatim>\<open>handleGenerateVariations\<close>, run on the state found when the variation
  call settles. \<^verbatim>\<open>setImages\<close> queues the updater it is given: React runs it when it
  renders next, after the handler's own statements. The guard that follows the call
  therefore reads \<^verbatim>\<open>updateOccurred\<close> before the updater has assigned it, with the
  \<^verbatim>\<open>false\<close> it was declared with. The queued updaters then run in the order they
  were queued: the reconciliation first, the removal of the placeholders after it.
\<close>

definition handleGenerateVariations_resume ::
  "string \<Rightarrow> string list \<Rightarrow> GeneratedImage list outcome \<Rightarrow> canvas \<Rightarrow> canvas" where
  "handleGenerateVariations_resume parentPrompt placeholderIds settled st =
     (case settled of
        Returned results \<Rightarrow>
          (let updateOccurred = False;
               newImages = fst (reconcile parentPrompt placeholderIds results (images st))
           in if \<not> updateOccurred \<and> length results > 0 \<and> truthy_opt (error_gen (hd results))
              then st\<lparr>error := Some ''Generation of variants failed'',
                      images := filter (\<lambda>img. id_img img \<notin> set placeholderIds) newImages\<rparr>
              else st\<lparr>images := newImages\<rparr>)
      | Threw m \<Rightarrow>
          st\<lparr>images := filter (\<lambda>img. id_img img \<notin> set placeholderIds) (images st)\<rparr>)"

section \<open>The page: duplication\<close>

text \<open>
  \<^verbatim>\<open>handleDuplicateImage\<close> up to \<^verbatim>\<open>await generateUuid()\<close>. The continuation keeps
  the source entity and the position it computed.
\<close>

definition handleDuplicateImage_start ::
  "container option \<Rightarrow> string \<Rightarrow> canvas \<Rightarrow> canvas \<times> pending list" where
  "handleDuplicateImage_start container' sourceImageId st =
     (case find_image sourceImageId (images st) of
        None \<Rightarrow> (st\<lparr>error := Some ''Could not find the image to duplicate.''\<rparr>, [])
      | Some sourceImage \<Rightarrow>
          (let newX = x (position sourceImage) + IMAGE_SIZE + DUPLICATION_OFFSET;
               newY = y (position sourceImage);
               position' = clampPositionToBounds \<lparr>x = newX, y = newY\<rparr> container' IMAGE_SIZE
           in (st\<lparr>error := None\<rparr>, [DuplicatePending sourceImage position' sourceImageId])))"

text \<open>
  After the \<^verbatim>\<open>await\<close>. The call is outside any \<^verbatim>\<open>try\<close>: when it rejects the handler
  ends there and the state stays as it is.
\<close>

definition handleDuplicateImage_resume ::
  "ImageInfo \<Rightarrow> Position \<Rightarrow> string \<Rightarrow> string outcome \<Rightarrow> canvas \<Rightarrow> canvas" where
  "handleDuplicateImage_resume sourceImage position' sourceImageId settled st =
     (case settled of
        Threw m \<Rightarrow> st
      | Returned uuid \<Rightarrow>
          (if \<not> truthy uuid then st\<lparr>error := Some ''Failed to get image to duplicate.''\<rparr>
           else
             (let newImage = \<lparr>id_img = uuid,
                              src = src sourceImage,
                              prompt_img = prompt_img sourceImage,
                              position = position',
                              parentId = Some sourceImageId,
                              isLoading = Some False,
                              isPlaceholder = Some False\<rparr>
              in st\<lparr>images := images st @ [newImage],
                    selectedImageId := Some (id_img newImage)\<rparr>)))"

text \<open>
  The whole handler when nothing else touches the state between its two parts; \<open>uuid\<close>
  is what \<^verbatim>\<open>generateUuid\<close> settles to, and it is only asked for when the source exists.
\<close>

definition handleDuplicateImage ::
  "container option \<Rightarrow> string outcome \<Rightarrow> string \<Rightarrow> canvas \<Rightarrow> canvas" where
  "handleDuplicateImage container' uuid sourceImageId st =
     (case handleDuplicateImage_start container' sourceImageId st of
        (st', [DuplicatePending sourceImage position' sid]) \<Rightarrow>
          handleDuplicateImage_resume sourceImage position' sid uuid st'
      | (st', _) \<Rightarrow> st')"

section \<open>Position update after a drag\<close>

text \<open>
  \<^verbatim>\<open>handleUpdatePosition\<close>: a functional update of \<^verbatim>\<open>images\<close> that maps over the
  collection and overwrites the position of every entity carrying the id.
\<close>

definition handleUpdatePosition :: "string \<Rightarrow> Position \<Rightarrow> canvas \<Rightarrow> canvas" where
  "handleUpdatePosition i newPosition st =
     st\<lparr>images := map (\<lambda>img. if id_img img = i then img\<lparr>position := newPosition\<rparr> else img)
                       (images st)\<rparr>"

section \<open>The page: grid layout\<close>

text \<open>
  \<^verbatim>\<open>handleArrangeGrid\<close>. The second component is the value written to
  \<^verbatim>\<open>container.style.minHeight\<close>, when one is written.
\<close>

definition handleArrangeGrid :: "container option \<Rightarrow> canvas \<Rightarrow> canvas \<times> rat option" where
  "handleArrangeGrid container' st =
     (case container' of
        None \<Rightarrow> (st\<lparr>error := Some ''Failed to arrange images''\<rparr>, None)
      | Some c \<Rightarrow>
          (if length (images st) = 0 then (st\<lparr>error := Some ''Failed to arrange images''\<rparr>, None)
           else
             (let containerWidth = offsetWidth c;
                  availableWidth = containerWidth - GRID_GAP;
                  itemTotalWidth = IMAGE_SIZE + GRID_GAP;
                  numColumns = (max 1 (floor (availableWidth / itemTotalWidth)) :: int);
                  numRows = (ceiling (rat_of_nat (length (images st)) / rat_of_int numColumns) :: int);
                  gridWidth = rat_of_int numColumns * IMAGE_SIZE
                                + rat_of_int (max 0 (numColumns - 1)) * GRID_GAP;
                  gridHeight = rat_of_int numRows * IMAGE_SIZE
                                 + rat_of_int (max 0 (numRows - 1)) * GRID_GAP;
                  offsetX = max GRID_GAP ((containerWidth - gridWidth) / 2);
                  offsetY = HEADER_HEIGHT + GRID_GAP;
                  requiredContainerHeight = offsetY + gridHeight + GRID_GAP;
                  newImages =
                    map (\<lambda>(index, image).
                           (let row = (floor (rat_of_nat index / rat_of_int numColumns) :: int);
                                col = int index mod numColumns;
                                newX = offsetX + rat_of_int col * itemTotalWidth;
                                newY = offsetY + rat_of_int row * (IMAGE_SIZE + GRID_GAP);
                                clampedX = max 0 (min newX (containerWidth - IMAGE_SIZE))
                            in image\<lparr>position := \<lparr>x = clampedX, y = newY\<rparr>\<rparr>))
                        (enumerate 0 (images st))
              in (st\<lparr>error := None, images := newImages, selectedImageId := None\<rparr>,
                  Some requiredContainerHeight))))"

section \<open>The page: saving and the saved-image catalog\<close>

text \<open>\<^verbatim>\<open>loadSavedImagesForDropdown\<close>, before and after \<^verbatim>\<open>await fetchSavedImages()\<close>.\<close>

definition loadSavedImagesForDropdown_start :: "canvas \<Rightarrow> canvas \<times> pending list" where
  "loadSavedImagesForDropdown_start st = (st\<lparr>isLoadingSavedImages := True\<rparr>, [CatalogPending])"

definition loadSavedImagesForDropdown_resume ::
  "GeneratedImage list outcome \<Rightarrow> canvas \<Rightarrow> canvas" where
  "loadSavedImagesForDropdown_resume settled st =
     (case settled of
        Returned loadedImagesResult \<Rightarrow>
          st\<lparr>savedImages :=
               map (\<lambda>result.
                      \<lparr>id_img = id_gen result,
                       src = (case imageUrl result of Some u \<Rightarrow> u | None \<Rightarrow> []),
                       prompt_img = (case promptUsed result of Some q \<Rightarrow> q | None \<Rightarrow> ''Untitled''),
                       position = \<lparr>x = 0, y = 0\<rparr>,
                       parentId = None, isLoading = None, isPlaceholder = None\<rparr>)
                   loadedImagesResult\<rparr>
      | Threw m \<Rightarrow> st\<lparr>error := Some ''Failed to fetch saved images''\<rparr>)
     \<lparr>isLoadingSavedImages := False\<rparr>"

text \<open>
  \<^verbatim>\<open>handleSaveImage\<close>: it awaits \<^verbatim>\<open>saveImageBlob(id, src)\<close> at once. The value the call
  resolves to is what \<open>saveImageBlob\<close> returned, its \<^verbatim>\<open>error\<close> field; the handler does
  not read it. The call crosses to the server and can reject.
\<close>

definition handleSaveImage_start :: "string \<Rightarrow> string \<Rightarrow> canvas \<Rightarrow> canvas \<times> pending list" where
  "handleSaveImage_start i src' st = (st, [SavePending])"

definition handleSaveImage_resume :: "string option outcome \<Rightarrow> canvas \<Rightarrow> canvas \<times> pending list" where
  "handleSaveImage_resume settled st =
     (case settled of
        Returned saveResult \<Rightarrow> loadSavedImagesForDropdown_start st
      | Threw m \<Rightarrow> (st\<lparr>error := Some ''Failed to save image''\<rparr>, []))"

definition handleSelectSavedImage :: "container option \<Rightarrow> ImageInfo \<Rightarrow> canvas \<Rightarrow> canvas" where
  "handleSelectSavedImage container' selectedImageInfo st =
     (case container' of
        None \<Rightarrow> st\<lparr>isImageDropdownOpen := False\<rparr>
      | Some c \<Rightarrow>
          (let centerX = max 0 ((offsetWidth c - IMAGE_SIZE) / 2);
               centerY = max 0 ((offsetHeight c - IMAGE_SIZE) / 2);
               newCanvasImage = \<lparr>id_img = id_img selectedImageInfo,
                                 src = src selectedImageInfo,
                                 prompt_img = prompt_img selectedImageInfo,
                                 position = \<lparr>x = centerX, y = centerY\<rparr>,
                                 parentId = None,
                                 isLoading = Some False,
                                 isPlaceholder = Some False\<rparr>
           in (setPromptAndResetDebounce (prompt_img selectedImageInfo) st)
                \<lparr>images := filter (\<lambda>img. id_img img \<noteq> id_img newCanvasImage) (images st)
                             @ [newCanvasImage],
                 selectedImageId := Some (id_img newCanvasImage),
                 isImageDropdownOpen := False\<rparr>))"

section \<open>The page as a transition system\<close>

text \<open>
  The page runs on one thread: an event runs a handler (or the first part of one, up to
  its \<^verbatim>\<open>await\<close>) to completion, and a settled call runs the rest of the handler that
  awaited it. A configuration is the page state together with the calls in flight. The
  effects are events of their own, free to run at any time, which covers every moment
  at which React runs them.
\<close>

record config =
  page :: canvas
  inflight :: "pending list"

datatype response =
    ImageResponse "GeneratedImage outcome"
  | VariationsResponse "GeneratedImage list outcome"
  | UuidResponse "string outcome"
  | SaveResponse "string option outcome"
  | CatalogResponse "GeneratedImage list outcome"

datatype event =
    PromptInputChange string
  | DebounceTimerFired
  | RegenerationEffect
  | RegenerateCalled string string
  | MountEffect "container option"
  | SelectImage string
  | ContainerClick
  | UpdatePosition string Position
  | DeleteImage string
  | ArrangeGrid "container option"
  | GenerateVariations "container option" "nat \<Rightarrow> nat" string string
  | DuplicateImage "container option" string
  | SaveImage string string
  | LoadSavedImages
  | ToggleImageDropdown
  | SelectSavedImage "container option" ImageInfo
  | Settled nat response

text \<open>The continuation of a suspended handler; \<open>None\<close> when the value is not of its call.\<close>

fun resume :: "pending \<Rightarrow> response \<Rightarrow> canvas \<Rightarrow> (canvas \<times> pending list) option" where
  "resume (RegenerationPending imageId newPrompt) (ImageResponse r) st =
     Some (handleRegenerateSelectedImage_resume imageId newPrompt r st, [])"
| "resume (VariationsPending parentPrompt placeholderIds) (VariationsResponse r) st =
     Some (handleGenerateVariations_resume parentPrompt placeholderIds r st, [])"
| "resume (DuplicatePending sourceImage position' sourceImageId) (UuidResponse r) st =
     Some (handleDuplicateImage_resume sourceImage position' sourceImageId r st, [])"
| "resume SavePending (SaveResponse r) st = Some (handleSaveImage_resume r st)"
| "resume CatalogPending (CatalogResponse r) st =
     Some (loadSavedImagesForDropdown_resume r st, [])"
| "resume _ _ st = None"

definition started :: "config \<Rightarrow> canvas \<times> pending list \<Rightarrow> config" where
  "started c r = \<lparr>page = fst r, inflight = inflight c @ snd r\<rparr>"

fun step :: "event \<Rightarrow> config \<Rightarrow> config" where
  "step (PromptInputChange v) c = c\<lparr>page := handlePromptInputChange v (page c)\<rparr>"
| "step DebounceTimerFired c = c\<lparr>page := debounceTimerFired (page c)\<rparr>"
| "step RegenerationEffect c = started c (regenerationEffect (page c))"
| "step (RegenerateCalled imageId newPrompt) c =
     started c (handleRegenerateSelectedImage_start imageId newPrompt (page c))"
| "step (MountEffect container') c = c\<lparr>page := mountEffect container' (page c)\<rparr>"
| "step (SelectImage i) c = c\<lparr>page := handleSelectImage i (page c)\<rparr>"
| "step ContainerClick c = c\<lparr>page := handleContainerClick (page c)\<rparr>"
| "step (UpdatePosition i newPosition) c = c\<lparr>page := handleUpdatePosition i newPosition (page c)\<rparr>"
| "step (DeleteImage i) c = c\<lparr>page := handleDeleteImage i (page c)\<rparr>"
| "step (ArrangeGrid container') c = c\<lparr>page := fst (handleArrangeGrid container' (page c))\<rparr>"
| "step (GenerateVariations container' now parentId' parentPrompt) c =
     started c (handleGenerateVariations_start container' now parentId' parentPrompt (page c))"
| "step (DuplicateImage container' sourceImageId) c =
     started c (handleDuplicateImage_start container' sourceImageId (page c))"
| "step (SaveImage i src') c = started c (handleSaveImage_start i src' (page c))"
| "step LoadSavedImages c = started c (loadSavedImagesForDropdown_start (page c))"
| "step ToggleImageDropdown c = c\<lparr>page := toggleImageDropdown (page c)\<rparr>"
| "step (SelectSavedImage container' info) c =
     c\<lparr>page := handleSelectSavedImage container' info (page c)\<rparr>"
| "step (Settled k r) c =
     (if k < length (inflight c) then
        (case resume (inflight c ! k) r (page c) of
           None \<Rightarrow> c
         | Some (st', calls) \<Rightarrow>
             \<lparr>page = st', inflight = take k (inflight c) @ drop (Suc k) (inflight c) @ calls\<rparr>)
      else c)"

text \<open>
  The configurations the page can reach from a start with the latch free and no call in
  flight, by any sequence of events.
\<close>

inductive reachable :: "config \<Rightarrow> bool" where
  start: "\<not> isRegeneratingRef st \<Longrightarrow> reachable \<lparr>page = st, inflight = []\<rparr>"
| after: "reachable c \<Longrightarrow> reachable (step e c)"

definition regenerationsInFlight :: "config \<Rightarrow> nat" where
  "regenerationsInFlight c =
     length (filter (\<lambda>q. case q of RegenerationPending _ _ \<Rightarrow> True | _ \<Rightarrow> False) (inflight c))"

text \<open>
  The invariant that ties the latch to the calls in flight: the number of suspended
  regenerations is one when the latch is taken and zero when it is free.
\<close>

definition isRegeneration :: "pending \<Rightarrow> bool" where
  "isRegeneration q = (case q of RegenerationPending _ _ \<Rightarrow> True | _ \<Rightarrow> False)"

definition latchInvariant :: "config \<Rightarrow> bool" where
  "latchInvariant c = (regenerationsInFlight c = (if isRegeneratingRef (page c) then 1 else 0))"

section \<open>Reconciliation as the specification words it\<close>

text \<open>
  A result fails when it is an error or lacks its id or its url. A placeholder that a
  successful result fills keeps its position and parent and takes the result's id, url
  and prompt, with both flags cleared.
\<close>

definition resultFailed :: "GeneratedImage \<Rightarrow> bool" where
  "resultFailed result =
     (truthy_opt (error_gen result) \<or> \<not> truthy (id_gen result) \<or> \<not> truthy_opt (imageUrl result))"

definition promoted :: "string \<Rightarrow> GeneratedImage \<Rightarrow> ImageInfo \<Rightarrow> ImageInfo" where
  "promoted parentPrompt result placeholder =
     \<lparr>id_img = id_gen result,
      src = the (imageUrl result),
      prompt_img = (case promptUsed result of
                      None \<Rightarrow> ''Variant of: '' @ parentPrompt
                    | Some q \<Rightarrow> if q = [] then ''Variant of: '' @ parentPrompt else q),
      position = position placeholder,
      parentId = parentId placeholder,
      isLoading = Some False,
      isPlaceholder = Some False\<rparr>"

text \<open>
  The collection after reconciliation, entity by entity: an entity that is the \<open>i\<close>-th
  placeholder, with a result at index \<open>i\<close>, is dropped when that result failed and
  promoted otherwise; every other entity stays, and the order is kept.
\<close>

definition reconcile_spec ::
  "string \<Rightarrow> string list \<Rightarrow> GeneratedImage list \<Rightarrow> ImageInfo list \<Rightarrow> ImageInfo list" where
  "reconcile_spec parentPrompt placeholderIds results imgs =
     List.map_filter
       (\<lambda>img. case findIndex (\<lambda>p. p = id_img img) placeholderIds of
                None \<Rightarrow> Some img
              | Some i \<Rightarrow>
                  if i < length results
                  then (if resultFailed (results ! i) then None
                        else Some (promoted parentPrompt (results ! i) img))
                  else Some img)
       imgs"

text \<open>
  One lookup-and-edit on a list: the first element satisfying \<open>P\<close> is removed when
  \<open>g\<close> gives \<open>None\<close> and replaced by what \<open>g\<close> gives otherwise.
\<close>

definition editFirst :: "('a \<Rightarrow> bool) \<Rightarrow> ('a \<Rightarrow> 'a option) \<Rightarrow> 'a list \<Rightarrow> 'a list" where
  "editFirst P g xs =
     (case findIndex P xs of
        None \<Rightarrow> xs
      | Some k \<Rightarrow> (case g (xs ! k) of
                     None \<Rightarrow> take k xs @ drop (Suc k) xs
                   | Some b \<Rightarrow> xs[k := b]))"

section \<open>The regeneration trigger as the specification words it\<close>

text \<open>
  The selected entity is the entity of the collection the selection refers to. A prompt
  is blank when it is empty after trimming, that is, when each of its code units is white
  space: one of 9, 10, 11, 12, 13, 32 and 160. The condition lists (a) an entity is
  selected, (b) the debounced prompt is not blank, (c) no regeneration is in flight,
  (d) the debounced prompt differs from the stored prompt of the selected entity.
\<close>

definition whiteSpaceCode :: "nat \<Rightarrow> bool" where
  "whiteSpaceCode n = (n = 9 \<or> n = 10 \<or> n = 11 \<or> n = 12 \<or> n = 13 \<or> n = 32 \<or> n = 160)"

definition blank :: "string \<Rightarrow> bool" where
  "blank s = list_all (\<lambda>ch. whiteSpaceCode (of_char ch)) s"

definition selectedEntity :: "canvas \<Rightarrow> ImageInfo option" where
  "selectedEntity st =
     (case selectedImageId st of None \<Rightarrow> None | Some sid \<Rightarrow> find_image sid (images st))"

definition triggerCondition :: "canvas \<Rightarrow> bool" where
  "triggerCondition st =
     (selectedEntity st \<noteq> None \<and>
      \<not> blank (debouncedPrompt st) \<and>
      \<not> isRegeneratingRef st \<and>
      (case selectedEntity st of
         None \<Rightarrow> False
       | Some selectedImage \<Rightarrow> debouncedPrompt st \<noteq> prompt_img selectedImage))"

section \<open>The grid as the specification words it\<close>

text \<open>
  The position of the entity at index \<open>i\<close> in a container of the given width, with item
  size 150, gap 20 and header height 80: a function of the index and the width alone.
\<close>

definition gridPosition :: "rat \<Rightarrow> nat \<Rightarrow> Position" where
  "gridPosition containerWidth i =
     (let columns = (max 1 (floor ((containerWidth - 20) / (150 + 20))) :: int);
          gridWidth = rat_of_int columns * 150 + (rat_of_int columns - 1) * 20;
          centeringOffset = max 20 ((containerWidth - gridWidth) / 2);
          verticalStart = 80 + 20;
          row = int i div columns;
          col = int i mod columns
      in \<lparr>x = max 0 (min (centeringOffset + rat_of_int col * (150 + 20)) (containerWidth - 150)),
          y = verticalStart + rat_of_int row * (150 + 20)\<rparr>)"

section \<open>Example states\<close>

text \<open>Concrete entities and a page state on which the theorems below are instantiated.\<close>

definition ex_cat :: ImageInfo where
  "ex_cat = \<lparr>id_img = ''a'', src = ''u'', prompt_img = ''cat'',
             position = \<lparr>x = 100, y = 100\<rparr>, parentId = None,
             isLoading = Some False, isPlaceholder = Some False\<rparr>"

definition ex_dog :: ImageInfo where
  "ex_dog = \<lparr>id_img = ''b'', src = ''v'', prompt_img = ''dog'',
             position = \<lparr>x = 30, y = 40\<rparr>, parentId = Some ''a'',
             isLoading = None, isPlaceholder = None\<rparr>"

definition ex_canvas :: canvas where
  "ex_canvas = \<lparr>prompt = ''cat'', images = [ex_cat, ex_dog],
                selectedImageId = Some ''a'', error = None, debouncedPrompt = ''cat'',
                isRegeneratingRef = False, isImageDropdownOpen = False, savedImages = [],
                isLoadingSavedImages = False\<rparr>"

definition ex_container :: container where
  "ex_container = \<lparr>offsetWidth = 800, offsetHeight = 600, scrollHeight = 600\<rparr>"

definition ex_now :: "nat \<Rightarrow> nat" where
  "ex_now index = 1700"

definition ex_pids :: "string list" where
  "ex_pids = [''a-placeholder-0-1700'', ''a-placeholder-1-1700'',
              ''a-placeholder-2-1700'', ''a-placeholder-3-1700'']"

definition ex_slot :: "string \<Rightarrow> rat \<Rightarrow> rat \<Rightarrow> ImageInfo" where
  "ex_slot i px py = \<lparr>id_img = i, src = [], prompt_img = ''Loading variation for: cat'',
                       position = \<lparr>x = px, y = py\<rparr>, parentId = Some ''a'',
                       isLoading = Some True, isPlaceholder = Some True\<rparr>"

definition ex_fanout :: canvas where
  "ex_fanout = ex_canvas\<lparr>images := [ex_cat, ex_dog,
                 ex_slot ''a-placeholder-0-1700'' 100 0,
                 ex_slot ''a-placeholder-1-1700'' 100 270,
                 ex_slot ''a-placeholder-2-1700'' 0 100,
                 ex_slot ''a-placeholder-3-1700'' 270 100]\<rparr>"

definition ex_ok :: "string \<Rightarrow> GeneratedImage" where
  "ex_ok i = \<lparr>id_gen = i, imageUrl = Some ''https://img'', promptUsed = Some ''a cat, pastel'',
              error_gen = None\<rparr>"

definition ex_err :: GeneratedImage where
  "ex_err = \<lparr>id_gen = [], imageUrl = None, promptUsed = Some ''a cat, neon'',
             error_gen = Some ''quota exceeded''\<rparr>"

definition ex_nourl :: GeneratedImage where
  "ex_nourl = \<lparr>id_gen = ''g0'', imageUrl = None, promptUsed = Some ''a cat, oil'',
               error_gen = None\<rparr>"

definition ex_real :: "string \<Rightarrow> rat \<Rightarrow> rat \<Rightarrow> ImageInfo" where
  "ex_real i px py = \<lparr>id_img = i, src = ''https://img'', prompt_img = ''a cat, pastel'',
                       position = \<lparr>x = px, y = py\<rparr>, parentId = Some ''a'',
                       isLoading = Some False, isPlaceholder = Some False\<rparr>"

lemmas ex_defs = ex_canvas_def ex_cat_def ex_dog_def ex_fanout_def ex_pids_def ex_slot_def
  ex_ok_def ex_err_def ex_nourl_def ex_real_def

definition ex_pv_failed :: PromptVariants where
  "ex_pv_failed = getPromptVariants (Threw (Some ''quota exceeded''))"

definition ex_ext :: "nat \<Rightarrow> string outcome \<times> string option outcome" where
  "ex_ext index = (Returned ''g'', Returned (Some ''https://img''))"

definition ex_storage :: storage where
  "ex_storage = \<lparr>supabase = True, download = Returned False, blob = Returned (),
                 upload = Returned False, update = Returned False\<rparr>"

definition ex_typed :: canvas where
  "ex_typed = ex_canvas\<lparr>prompt := ''cat at night'', debouncedPrompt := ''cat at night''\<rparr>"

definition ex_loading :: canvas where
  "ex_loading = ex_typed\<lparr>isRegeneratingRef := True,
                  images := [ex_cat\<lparr>isLoading := Some True\<rparr>, ex_dog]\<rparr>"

definition ex_generated :: GeneratedImage where
  "ex_generated = \<lparr>id_gen = ''n'', imageUrl = Some ''https://new'',
                   promptUsed = Some ''cat at night'', error_gen = None\<rparr>"

definition ex_grid :: canvas where
  "ex_grid = ex_canvas\<lparr>images := [ex_cat\<lparr>position := \<lparr>x = 70, y = 100\<rparr>\<rparr>,
                                    ex_dog\<lparr>position := \<lparr>x = 240, y = 100\<rparr>\<rparr>],
                        selectedImageId := None\<rparr>"

definition ex_pending :: config where
  "ex_pending = step RegenerationEffect (step DebounceTimerFired
                  (step (PromptInputChange ''cat at night'') \<lparr>page = ex_canvas, inflight = []\<rparr>))"

definition ex_edited :: canvas where
  "ex_edited = ex_canvas\<lparr>prompt := ''cat at night''\<rparr>"

definition ex_blank :: canvas where
  "ex_blank = ex_canvas\<lparr>prompt := [CHR 0xA0, CHR '' '']\<rparr>"

definition ex_failed :: canvas where
  "ex_failed = handleRegenerateSelectedImage_resume ''a'' ''cat at night'' (Returned ex_err) ex_loading"

definition ex_retyped :: canvas where
  "ex_retyped = handlePromptInputChange ''cat at night''
                  (handlePromptInputChange ''cat at night!'' ex_failed)"

section \<open>Lemmas on the reconciliation loop\<close>

lemma findIndex_None_iff: "findIndex P xs = None \<longleftrightarrow> (\<forall>a\<in>set xs. \<not> P a)"
  by (induction xs) auto

lemma findIndex_Some_D: "findIndex P xs = Some k \<Longrightarrow> k < length xs \<and> P (xs ! k)"
  by (induction xs arbitrary: k) (auto split: if_splits)

lemma findIndex_distinct_nth:
  "distinct ps \<Longrightarrow> n < length ps \<Longrightarrow> findIndex (\<lambda>p. p = ps ! n) ps = Some n"
proof (induction ps arbitrary: n)
  case Nil
  then show ?case by simp
next
  case (Cons a ps)
  show ?case
  proof (cases n)
    case 0
    then show ?thesis by simp
  next
    case (Suc m)
    with Cons.prems have "ps ! m \<noteq> a" "m < length ps" "distinct ps" by auto
    with Cons.IH [of m] Suc show ?thesis by simp
  qed
qed

lemma editFirst_Cons_hit:
  "P a \<Longrightarrow> editFirst P g (a # xs) = (case g a of None \<Rightarrow> xs | Some b \<Rightarrow> b # xs)"
  by (simp add: editFirst_def split: option.splits)

lemma editFirst_Cons_miss:
  "\<not> P a \<Longrightarrow> editFirst P g (a # xs) = a # editFirst P g xs"
  by (cases "findIndex P xs") (auto simp: editFirst_def split: option.splits)

lemma editFirst_map_filter:
  assumes "\<forall>a\<in>set xs. P a \<longrightarrow> f a = Some a"
    and "\<forall>a\<in>set xs. \<forall>b. f a = Some b \<longrightarrow> P b \<longrightarrow> P a"
    and "length (filter P xs) \<le> 1"
  shows "editFirst P g (List.map_filter f xs) = List.map_filter (\<lambda>a. if P a then g a else f a) xs"
  using assms
proof (induction xs)
  case Nil
  then show ?case by (simp add: editFirst_def List.map_filter_simps)
next
  case (Cons a xs)
  show ?case
  proof (cases "P a")
    case True
    with Cons.prems have fa: "f a = Some a" by simp
    from True Cons.prems(3) have "filter P xs = []" by simp
    then have none: "\<forall>b\<in>set xs. \<not> P b" by (simp add: filter_empty_conv)
    then have "List.map_filter (\<lambda>a. if P a then g a else f a) xs = List.map_filter f xs"
      by (simp add: List.map_filter_def cong: map_cong filter_cong)
    with True fa show ?thesis
      by (simp add: List.map_filter_simps editFirst_Cons_hit split: option.splits)
  next
    case False
    from Cons.prems False have prems': "\<forall>a\<in>set xs. P a \<longrightarrow> f a = Some a"
      "\<forall>a\<in>set xs. \<forall>b. f a = Some b \<longrightarrow> P b \<longrightarrow> P a" "length (filter P xs) \<le> 1"
      by auto
    note IH = Cons.IH [OF prems']
    show ?thesis
    proof (cases "f a")
      case None
      with False IH show ?thesis by (simp add: List.map_filter_simps)
    next
      case (Some b)
      with Cons.prems(2) False have "\<not> P b" by auto
      with Some False IH show ?thesis
        by (simp add: List.map_filter_simps editFirst_Cons_miss)
    qed
  qed
qed


lemma set_map_filter: "set (List.map_filter f xs) = {b. \<exists>a\<in>set xs. f a = Some b}"
  by (induction xs) (auto simp: List.map_filter_simps split: option.splits)

lemma map_filter_cong_set:
  "(\<And>a. a \<in> set xs \<Longrightarrow> f a = g a) \<Longrightarrow> List.map_filter f xs = List.map_filter g xs"
  by (induction xs) (auto simp: List.map_filter_simps split: option.splits)

lemma distinct_map_filter_le1:
  "distinct (map f xs) \<Longrightarrow> length (filter (\<lambda>a. f a = v) xs) \<le> 1"
proof (induction xs)
  case Nil
  then show ?case by simp
next
  case (Cons a xs)
  show ?case
  proof (cases "f a = v")
    case True
    with Cons.prems have "\<forall>b\<in>set xs. f b \<noteq> v" by (auto simp: image_iff)
    then have "filter (\<lambda>a. f a = v) xs = []" by (simp add: filter_empty_conv)
    with True show ?thesis by simp
  next
    case False
    with Cons show ?thesis by simp
  qed
qed

lemma findIndex_eq_Some_D: "findIndex (\<lambda>p. p = v) ps = Some i \<Longrightarrow> i < length ps \<and> ps ! i = v"
  using findIndex_Some_D [of "\<lambda>p. p = v" ps i] by simp

lemma promoted_update:
  "img\<lparr>id_img := id_gen result, src := the (imageUrl result),
       prompt_img := (if truthy_opt (promptUsed result) then the (promptUsed result)
                      else ''Variant of: '' @ pp),
       isLoading := Some False, isPlaceholder := Some False\<rparr> = promoted pp result img"
  by (cases "promptUsed result") (simp_all add: promoted_def truthy_opt_def truthy_def)

lemma reconcileStep_fst:
  "fst (reconcileStep pp pids (L, u) (n, r)) =
     (if n < length pids \<and> truthy (pids ! n)
      then editFirst (\<lambda>img. id_img img = pids ! n)
             (\<lambda>img. if resultFailed r then None else Some (promoted pp r img)) L
      else L)"
  unfolding reconcileStep.simps promoted_update editFirst_def resultFailed_def
  by (simp split: option.splits)

lemma findIndex_Some_iff: "(\<exists>k. findIndex P xs = Some k) \<longleftrightarrow> (\<exists>a\<in>set xs. P a)"
  using findIndex_None_iff [of P xs] by (cases "findIndex P xs") auto

lemma reconcileStep_snd:
  "snd (reconcileStep pp pids (L, u) (n, r)) =
     (u \<or> (n < length pids \<and> truthy (pids ! n) \<and> \<not> resultFailed r \<and>
           (\<exists>b\<in>set L. id_img b = pids ! n)))"
proof (cases "findIndex (\<lambda>img. id_img img = pids ! n) L")
  case None
  then have "\<not> (\<exists>b\<in>set L. id_img b = pids ! n)"
    by (simp add: findIndex_None_iff)
  with None show ?thesis by simp
next
  case (Some k)
  then have "\<exists>b\<in>set L. id_img b = pids ! n"
    using findIndex_Some_iff [of "\<lambda>img. id_img img = pids ! n" L] by blast
  with Some show ?thesis by (auto simp: resultFailed_def)
qed

declare reconcileStep.simps [simp del]

lemma reconcile_snoc:
  "reconcile pp pids (rs @ [r]) imgs =
     reconcileStep pp pids (reconcile pp pids rs imgs) (length rs, r)"
  by (simp add: reconcile_def enumerate_append_eq)


lemma promoted_id: "id_img (promoted pp r a) = id_gen r"
  by (simp add: promoted_def)

lemma reconcile_Nil: "reconcile pp pids [] imgs = (imgs, False)"
  by (simp add: reconcile_def)

lemma reconcile_spec_Nil: "reconcile_spec pp pids [] imgs = imgs"
  by (induction imgs) (simp_all add: reconcile_spec_def List.map_filter_simps split: option.splits)

lemma reconcile_characterised:
  assumes D: "distinct (map id_img imgs)"
    and DP: "distinct pids"
    and T: "\<forall>p\<in>set pids. truthy p"
    and FR: "\<forall>r\<in>set rs. \<not> resultFailed r \<longrightarrow> id_gen r \<notin> set pids"
  shows "reconcile pp pids rs imgs =
           (reconcile_spec pp pids rs imgs,
            \<exists>i<length rs. i < length pids \<and> \<not> resultFailed (rs ! i) \<and>
                           pids ! i \<in> id_img ` set imgs)"
  using FR
proof (induction rs rule: rev_induct)
  case Nil
  show ?case by (simp add: reconcile_Nil reconcile_spec_Nil)
next
  case (snoc r rs)
  let ?n = "length rs"
  let ?F = "\<lambda>qs img. case findIndex (\<lambda>p. p = id_img img) pids of
                None \<Rightarrow> Some img
              | Some i \<Rightarrow>
                  if i < length qs
                  then (if resultFailed (qs ! i) then None
                        else Some (promoted pp (qs ! i) img))
                  else Some img"
  let ?U = "\<lambda>qs. \<exists>i<length qs. i < length pids \<and> \<not> resultFailed (qs ! i) \<and>
                           pids ! i \<in> id_img ` set imgs"
  from snoc.prems have FR': "\<forall>q\<in>set rs. \<not> resultFailed q \<longrightarrow> id_gen q \<notin> set pids"
    and FRr: "\<not> resultFailed r \<longrightarrow> id_gen r \<notin> set pids" by auto
  have IH: "reconcile pp pids rs imgs = (List.map_filter (?F rs) imgs, ?U rs)"
    using snoc.IH [OF FR'] by (simp add: reconcile_spec_def)
  have spec: "reconcile_spec pp pids (rs @ [r]) imgs = List.map_filter (?F (rs @ [r])) imgs"
    by (simp add: reconcile_spec_def)
  show ?case
  proof (cases "?n < length pids")
    case False
    have same: "\<And>a. ?F (rs @ [r]) a = ?F rs a"
    proof -
      fix a
      show "?F (rs @ [r]) a = ?F rs a"
      proof (cases "findIndex (\<lambda>p. p = id_img a) pids")
        case None
        then show ?thesis by simp
      next
        case (Some i)
        with findIndex_eq_Some_D [of "id_img a" pids i] False have "i < length rs" by simp
        with Some show ?thesis by (simp add: nth_append)
      qed
    qed
    have U: "?U (rs @ [r]) = ?U rs"
    proof
      assume "?U (rs @ [r])"
      then obtain i where i: "i < length (rs @ [r])" "i < length pids"
        "\<not> resultFailed ((rs @ [r]) ! i)" "pids ! i \<in> id_img ` set imgs" by blast
      with False have "i < length rs" by simp
      with i show "?U rs" by (auto simp: nth_append)
    next
      assume "?U rs"
      then obtain i where i: "i < length rs" "i < length pids"
        "\<not> resultFailed (rs ! i)" "pids ! i \<in> id_img ` set imgs" by blast
      then have "i < length (rs @ [r])" "\<not> resultFailed ((rs @ [r]) ! i)"
        by (simp_all add: nth_append)
      with i show "?U (rs @ [r])" by blast
    qed
    from False have "fst (reconcile pp pids (rs @ [r]) imgs) = List.map_filter (?F rs) imgs"
      by (simp add: reconcile_snoc IH reconcileStep_fst)
    moreover from False have "snd (reconcile pp pids (rs @ [r]) imgs) = ?U rs"
      by (simp add: reconcile_snoc IH reconcileStep_snd)
    ultimately show ?thesis
      unfolding spec U using same by (simp add: prod_eq_iff)
  next
    case True
    let ?P = "\<lambda>img. id_img img = pids ! ?n"
    let ?g = "\<lambda>img. if resultFailed r then None else Some (promoted pp r img)"
    from True T have tr: "truthy (pids ! ?n)" by simp
    have idx: "findIndex (\<lambda>p. p = pids ! ?n) pids = Some ?n"
      using findIndex_distinct_nth [OF DP True] .
    have c1: "\<forall>a\<in>set imgs. ?P a \<longrightarrow> ?F rs a = Some a"
      using idx by simp
    have c2: "\<forall>a\<in>set imgs. \<forall>b. ?F rs a = Some b \<longrightarrow> ?P b \<longrightarrow> ?P a"
    proof (intro ballI allI impI)
      fix a b
      assume a: "a \<in> set imgs" and fa: "?F rs a = Some b" and pb: "?P b"
      show "?P a"
      proof (cases "findIndex (\<lambda>p. p = id_img a) pids")
        case None
        with fa pb show ?thesis by simp
      next
        case (Some i)
        show ?thesis
        proof (cases "i < length rs \<and> \<not> resultFailed (rs ! i)")
          case False
          with Some fa pb show ?thesis by (auto split: if_splits)
        next
          case yes: True
          with Some fa have "b = promoted pp (rs ! i) a" by simp
          then have "id_img b = id_gen (rs ! i)" by (simp add: promoted_id)
          moreover from yes FR' have "id_gen (rs ! i) \<notin> set pids" by simp
          moreover from True have "pids ! ?n \<in> set pids" by simp
          ultimately show ?thesis using pb by simp
        qed
      qed
    qed
    have c3: "length (filter ?P imgs) \<le> 1"
      using distinct_map_filter_le1 [OF D] .
    have edit: "editFirst ?P ?g (List.map_filter (?F rs) imgs)
                  = List.map_filter (\<lambda>a. if ?P a then ?g a else ?F rs a) imgs"
      using editFirst_map_filter [of imgs ?P "?F rs" ?g, OF c1 c2 c3] .
    have same: "\<And>a. (if ?P a then ?g a else ?F rs a) = ?F (rs @ [r]) a"
    proof -
      fix a
      show "(if ?P a then ?g a else ?F rs a) = ?F (rs @ [r]) a"
      proof (cases "?P a")
        case pa: True
        with idx show ?thesis by simp
      next
        case npa: False
        show ?thesis
        proof (cases "findIndex (\<lambda>p. p = id_img a) pids")
          case None
          with npa show ?thesis by simp
        next
          case (Some i)
          with findIndex_eq_Some_D [of "id_img a" pids i] npa have "i \<noteq> ?n" by auto
          with Some npa show ?thesis by (auto simp: nth_append)
        qed
      qed
    qed
    have mem: "(\<exists>b\<in>set (List.map_filter (?F rs) imgs). ?P b) \<longleftrightarrow> pids ! ?n \<in> id_img ` set imgs"
    proof
      assume "\<exists>b\<in>set (List.map_filter (?F rs) imgs). ?P b"
      then obtain a b where "a \<in> set imgs" "?F rs a = Some b" "?P b"
        by (auto simp: set_map_filter)
      with c2 have "?P a" by blast
      with \<open>a \<in> set imgs\<close> show "pids ! ?n \<in> id_img ` set imgs" by force
    next
      assume "pids ! ?n \<in> id_img ` set imgs"
      then obtain a where a: "a \<in> set imgs" "?P a" by force
      with c1 have "?F rs a = Some a" by blast
      with a show "\<exists>b\<in>set (List.map_filter (?F rs) imgs). ?P b"
        unfolding set_map_filter by blast
    qed
    have U: "?U (rs @ [r]) = (?U rs \<or> (\<not> resultFailed r \<and> pids ! ?n \<in> id_img ` set imgs))"
    proof
      assume "?U (rs @ [r])"
      then obtain i where i: "i < length (rs @ [r])" "i < length pids"
        "\<not> resultFailed ((rs @ [r]) ! i)" "pids ! i \<in> id_img ` set imgs" by blast
      show "?U rs \<or> (\<not> resultFailed r \<and> pids ! ?n \<in> id_img ` set imgs)"
      proof (cases "i = ?n")
        case True
        with i show ?thesis by simp
      next
        case False
        with i have "i < length rs" by simp
        with i have "?U rs" by (auto simp: nth_append)
        then show ?thesis by blast
      qed
    next
      assume "?U rs \<or> (\<not> resultFailed r \<and> pids ! ?n \<in> id_img ` set imgs)"
      then show "?U (rs @ [r])"
      proof
        assume "?U rs"
        then obtain i where i: "i < length rs" "i < length pids"
          "\<not> resultFailed (rs ! i)" "pids ! i \<in> id_img ` set imgs" by blast
        then have "i < length (rs @ [r])" "\<not> resultFailed ((rs @ [r]) ! i)"
          by (simp_all add: nth_append)
        with i show ?thesis by blast
      next
        assume "\<not> resultFailed r \<and> pids ! ?n \<in> id_img ` set imgs"
        with True have "?n < length (rs @ [r]) \<and> ?n < length pids \<and>
            \<not> resultFailed ((rs @ [r]) ! ?n) \<and> pids ! ?n \<in> id_img ` set imgs" by simp
        then show ?thesis by blast
      qed
    qed
    from True tr have "fst (reconcile pp pids (rs @ [r]) imgs)
        = editFirst ?P ?g (List.map_filter (?F rs) imgs)"
      by (simp add: reconcile_snoc IH reconcileStep_fst)
    then have one: "fst (reconcile pp pids (rs @ [r]) imgs) = List.map_filter (?F (rs @ [r])) imgs"
      unfolding edit using same by simp
    from True tr have "snd (reconcile pp pids (rs @ [r]) imgs)
        = (?U rs \<or> (\<not> resultFailed r \<and> (\<exists>b\<in>set (List.map_filter (?F rs) imgs). ?P b)))"
      by (simp add: reconcile_snoc IH reconcileStep_snd)
    then have two: "snd (reconcile pp pids (rs @ [r]) imgs) = ?U (rs @ [r])"
      unfolding mem U .
    from one two show ?thesis unfolding spec by (simp add: prod_eq_iff)
  qed
qed

lemma reconcile_snd_success:
  "snd (reconcile pp pids rs imgs) \<Longrightarrow> \<exists>r\<in>set rs. \<not> resultFailed r"
proof (induction rs rule: rev_induct)
  case Nil
  then show ?case by (simp add: reconcile_Nil)
next
  case (snoc r rs)
  obtain L u where Lu: "reconcile pp pids rs imgs = (L, u)" by (cases "reconcile pp pids rs imgs")
  with snoc.prems have "u \<or> \<not> resultFailed r"
    by (auto simp: reconcile_snoc reconcileStep_snd)
  with snoc.IH Lu show ?case by auto
qed

lemma total_failure_cleanup:
  assumes "\<forall>r\<in>set results. resultFailed r"
    and "results \<noteq> []"
    and "truthy_opt (error_gen (hd results))"
  shows "error (handleGenerateVariations_resume parentPrompt placeholderIds (Returned results) st)
           = Some ''Generation of variants failed'' \<and>
         (\<forall>img\<in>set (images (handleGenerateVariations_resume parentPrompt placeholderIds
                                 (Returned results) st)).
            id_img img \<notin> set placeholderIds)"
  using assms(2,3) by (simp add: handleGenerateVariations_resume_def)

lemma augmentation_failure_result:
  assumes "augmentationFailed pv"
  shows "\<exists>e. e \<noteq> [] \<and> generateImageVariations op pv ext =
           [\<lparr>id_gen = [], imageUrl = None, promptUsed = Some op, error_gen = Some e\<rparr>]"
  using assms by (simp add: generateImageVariations_def Let_def)

section \<open>Lemmas on the grid layout\<close>

lemma floor_nat_div_int: "floor (rat_of_nat i / rat_of_int n) = int i div n"
proof -
  have "rat_of_nat i = rat_of_int (int i)" by simp
  then show ?thesis by (simp only: floor_divide_of_int_eq)
qed

lemma arrange_images:
  assumes "images st \<noteq> []"
  shows "fst (handleArrangeGrid (Some c) st)
           = st\<lparr>error := None,
                images := map (\<lambda>(i, img). img\<lparr>position := gridPosition (offsetWidth c) i\<rparr>)
                              (enumerate 0 (images st)),
                selectedImageId := None\<rparr>"
proof -
  have m: "max 0 (max 1 (floor ((offsetWidth c - 20) / 170)) - 1 :: int)
             = max 1 (floor ((offsetWidth c - 20) / 170)) - 1" by simp
  show ?thesis using assms
    by (simp add: handleArrangeGrid_def gridPosition_def Let_def IMAGE_SIZE_def GRID_GAP_def
          HEADER_HEIGHT_def floor_nat_div_int m)
qed

lemma arrange_height:
  assumes "images st \<noteq> []" and "length (images st') = length (images st)"
  shows "snd (handleArrangeGrid (Some c) st') = snd (handleArrangeGrid (Some c) st)"
  using assms by (auto simp: handleArrangeGrid_def Let_def)

lemma regrid:
  "map (\<lambda>(i, img). img\<lparr>position := g i\<rparr>)
       (enumerate 0 (map (\<lambda>(i, img). img\<lparr>position := g i\<rparr>) (enumerate 0 imgs)))
   = map (\<lambda>(i, img). img\<lparr>position := g i\<rparr>) (enumerate 0 (imgs :: ImageInfo list))"
  by (rule nth_equalityI) (simp_all add: nth_enumerate_eq)

lemma floor_rat_numeral: "\<lfloor>numeral a / numeral b :: rat\<rfloor> = numeral a div numeral b"
  by (metis floor_divide_of_int_eq of_int_numeral)

lemma floor_rat_one: "\<lfloor>1 / numeral b :: rat\<rfloor> = 1 div numeral b"
  by (metis floor_divide_of_int_eq of_int_numeral of_int_1)

lemma ceiling_rat_numeral: "\<lceil>numeral a / numeral b :: rat\<rceil> = - (- numeral a div numeral b)"
  by (metis ceiling_def floor_divide_of_int_eq minus_divide_left of_int_minus of_int_numeral)

lemma ceiling_rat_one: "\<lceil>1 / numeral b :: rat\<rceil> = - (- 1 div numeral b)"
  by (metis ceiling_def floor_divide_of_int_eq minus_divide_left of_int_minus of_int_numeral of_int_1)

lemmas rat_rounding = floor_rat_numeral floor_rat_one ceiling_rat_numeral ceiling_rat_one

section \<open>Lemmas on the latch\<close>

lemma regenerationsInFlight_alt:
  "regenerationsInFlight c = length (filter isRegeneration (inflight c))"
  by (simp add: regenerationsInFlight_def isRegeneration_def [abs_def])

lemma count_remove:
  "k < length qs \<Longrightarrow>
   length (filter P (take k qs @ drop (Suc k) qs)) + (if P (qs ! k) then 1 else 0)
     = length (filter P qs)"
proof -
  assume "k < length qs"
  then have "qs = take k qs @ qs ! k # drop (Suc k) qs" by (rule id_take_nth_drop)
  then have "filter P qs = filter P (take k qs @ qs ! k # drop (Suc k) qs)" by simp
  then show ?thesis by simp
qed

lemma started_nothing: "started c (st, []) = c\<lparr>page := st\<rparr>"
  by (simp add: started_def)

lemma latch_start:
  "handleRegenerateSelectedImage_start i p st =
     (if isRegeneratingRef st then (st, [])
      else (fst (handleRegenerateSelectedImage_start i p st), [RegenerationPending i p]))"
  "\<not> isRegeneratingRef st \<Longrightarrow> isRegeneratingRef (fst (handleRegenerateSelectedImage_start i p st))"
  by (simp_all add: handleRegenerateSelectedImage_start_def)

lemma latch_effect:
  "regenerationEffect st = (st, []) \<or>
   (\<not> isRegeneratingRef st \<and> (\<exists>i p. regenerationEffect st = handleRegenerateSelectedImage_start i p st))"
  by (auto simp: regenerationEffect_def split: option.splits)

lemma latch_resume: "\<not> isRegeneratingRef (handleRegenerateSelectedImage_resume i p r st)"
  by (simp add: handleRegenerateSelectedImage_resume_def split: outcome.splits)

lemma latch_variations_start:
  "isRegeneratingRef (fst (handleGenerateVariations_start w n i p st)) = isRegeneratingRef st"
  "filter isRegeneration (snd (handleGenerateVariations_start w n i p st)) = []"
  by (simp_all add: handleGenerateVariations_start_def Let_def isRegeneration_def split: option.splits)

lemma latch_variations_resume:
  "isRegeneratingRef (handleGenerateVariations_resume p ids r st) = isRegeneratingRef st"
  by (simp add: handleGenerateVariations_resume_def Let_def split: outcome.splits prod.splits)

lemma latch_duplicate_start:
  "isRegeneratingRef (fst (handleDuplicateImage_start w i st)) = isRegeneratingRef st"
  "filter isRegeneration (snd (handleDuplicateImage_start w i st)) = []"
  by (simp_all add: handleDuplicateImage_start_def Let_def isRegeneration_def split: option.splits)

lemma latch_duplicate_resume:
  "isRegeneratingRef (handleDuplicateImage_resume a b i r st) = isRegeneratingRef st"
  by (simp add: handleDuplicateImage_resume_def Let_def split: outcome.splits)

lemma latch_save:
  "isRegeneratingRef (fst (handleSaveImage_start i s st)) = isRegeneratingRef st"
  "filter isRegeneration (snd (handleSaveImage_start i s st)) = []"
  "isRegeneratingRef (fst (handleSaveImage_resume r st)) = isRegeneratingRef st"
  "filter isRegeneration (snd (handleSaveImage_resume r st)) = []"
  "isRegeneratingRef (fst (loadSavedImagesForDropdown_start st)) = isRegeneratingRef st"
  "filter isRegeneration (snd (loadSavedImagesForDropdown_start st)) = []"
  "isRegeneratingRef (loadSavedImagesForDropdown_resume g st) = isRegeneratingRef st"
  by (simp_all add: handleSaveImage_start_def handleSaveImage_resume_def
        loadSavedImagesForDropdown_start_def loadSavedImagesForDropdown_resume_def
        isRegeneration_def split: outcome.splits)

lemma latch_sync:
  "isRegeneratingRef (handlePromptInputChange v st) = isRegeneratingRef st"
  "isRegeneratingRef (debounceTimerFired st) = isRegeneratingRef st"
  "isRegeneratingRef (mountEffect w st) = isRegeneratingRef st"
  "isRegeneratingRef (handleSelectImage i st) = isRegeneratingRef st"
  "isRegeneratingRef (handleContainerClick st) = isRegeneratingRef st"
  "isRegeneratingRef (handleUpdatePosition i q st) = isRegeneratingRef st"
  "isRegeneratingRef (handleDeleteImage i st) = isRegeneratingRef st"
  "isRegeneratingRef (fst (handleArrangeGrid w st)) = isRegeneratingRef st"
  "isRegeneratingRef (toggleImageDropdown st) = isRegeneratingRef st"
  "isRegeneratingRef (handleSelectSavedImage w info st) = isRegeneratingRef st"
  by (simp_all add: handlePromptInputChange_def debounceTimerFired_def mountEffect_def
        handleSelectImage_def handleContainerClick_def handleUpdatePosition_def
        handleDeleteImage_def handleArrangeGrid_def toggleImageDropdown_def
        handleSelectSavedImage_def setPromptAndResetDebounce_def Let_def split: option.splits)

lemma started_invariant:
  assumes "latchInvariant c"
    and "isRegeneratingRef (fst r) = isRegeneratingRef (page c)"
    and "filter isRegeneration (snd r) = []"
  shows "latchInvariant (started c r)"
  using assms by (simp add: latchInvariant_def regenerationsInFlight_alt started_def)

lemma start_invariant:
  assumes "latchInvariant c"
  shows "latchInvariant (started c (handleRegenerateSelectedImage_start i p (page c)))"
proof (cases "isRegeneratingRef (page c)")
  case True
  with assms show ?thesis
    by (simp add: handleRegenerateSelectedImage_start_def started_def latchInvariant_def
          regenerationsInFlight_alt)
next
  case False
  with assms show ?thesis
    by (simp add: handleRegenerateSelectedImage_start_def started_def latchInvariant_def
          regenerationsInFlight_alt isRegeneration_def)
qed

lemma settled_invariant:
  assumes inv: "latchInvariant c"
  shows "latchInvariant (step (Settled k r) c)"
proof (cases "k < length (inflight c)")
  case False
  with inv show ?thesis by simp
next
  case True
  note cnt = count_remove [OF True, of isRegeneration]
  show ?thesis
  proof (cases "resume (inflight c ! k) r (page c)")
    case None
    with inv True show ?thesis by simp
  next
    case (Some res)
    obtain st' calls where res: "res = (st', calls)" by (cases res)
    show ?thesis
    proof (cases "inflight c ! k")
      case (RegenerationPending i p)
      with Some res obtain out where r: "r = ImageResponse out"
        and st': "st' = handleRegenerateSelectedImage_resume i p out (page c)" and "calls = []"
        by (cases r) auto
      from cnt RegenerationPending have "length (filter isRegeneration (inflight c)) \<ge> 1"
        by (simp add: isRegeneration_def)
      with inv cnt RegenerationPending
      have "length (filter isRegeneration (take k (inflight c) @ drop (Suc k) (inflight c))) = 0"
        by (simp add: latchInvariant_def regenerationsInFlight_alt isRegeneration_def
              split: if_splits)
      with True Some res st' \<open>calls = []\<close> show ?thesis
        by (simp add: latchInvariant_def regenerationsInFlight_alt latch_resume)
    next
      case (VariationsPending p ids)
      with Some res obtain out where r: "r = VariationsResponse out"
        and st': "st' = handleGenerateVariations_resume p ids out (page c)" and "calls = []"
        by (cases r) auto
      from cnt VariationsPending
      have "length (filter isRegeneration (take k (inflight c) @ drop (Suc k) (inflight c)))
              = length (filter isRegeneration (inflight c))"
        by (simp add: isRegeneration_def)
      with inv True Some res st' \<open>calls = []\<close> show ?thesis
        by (simp add: latchInvariant_def regenerationsInFlight_alt latch_variations_resume)
    next
      case (DuplicatePending a b i)
      with Some res obtain out where r: "r = UuidResponse out"
        and st': "st' = handleDuplicateImage_resume a b i out (page c)" and "calls = []"
        by (cases r) auto
      from cnt DuplicatePending
      have "length (filter isRegeneration (take k (inflight c) @ drop (Suc k) (inflight c)))
              = length (filter isRegeneration (inflight c))"
        by (simp add: isRegeneration_def)
      with inv True Some res st' \<open>calls = []\<close> show ?thesis
        by (simp add: latchInvariant_def regenerationsInFlight_alt latch_duplicate_resume)
    next
      case SavePending
      with Some obtain out where r: "r = SaveResponse out"
        and res': "res = handleSaveImage_resume out (page c)"
        by (cases r) simp_all
      have a: "isRegeneratingRef (fst res) = isRegeneratingRef (page c)"
        and b: "filter isRegeneration (snd res) = []"
        unfolding res' by (simp_all add: latch_save)
      from cnt SavePending
      have "length (filter isRegeneration (take k (inflight c) @ drop (Suc k) (inflight c)))
              = length (filter isRegeneration (inflight c))"
        by (simp add: isRegeneration_def)
      with inv True Some a b show ?thesis
        by (simp add: latchInvariant_def regenerationsInFlight_alt case_prod_beta)
    next
      case CatalogPending
      with Some res obtain out where r: "r = CatalogResponse out"
        and st': "st' = loadSavedImagesForDropdown_resume out (page c)" and "calls = []"
        by (cases r) auto
      from cnt CatalogPending
      have "length (filter isRegeneration (take k (inflight c) @ drop (Suc k) (inflight c)))
              = length (filter isRegeneration (inflight c))"
        by (simp add: isRegeneration_def)
      with inv True Some res st' \<open>calls = []\<close> show ?thesis
        by (simp add: latchInvariant_def regenerationsInFlight_alt latch_save)
    qed
  qed
qed

lemma step_invariant:
  assumes inv: "latchInvariant c"
  shows "latchInvariant (step e c)"
proof (cases e)
  case RegenerationEffect
  from latch_effect [of "page c"] show ?thesis
  proof
    assume "regenerationEffect (page c) = (page c, [])"
    with inv RegenerationEffect show ?thesis by (simp add: started_nothing)
  next
    assume "\<not> isRegeneratingRef (page c) \<and>
      (\<exists>i p. regenerationEffect (page c) = handleRegenerateSelectedImage_start i p (page c))"
    then obtain i p where "regenerationEffect (page c) = handleRegenerateSelectedImage_start i p (page c)"
      by blast
    with start_invariant [OF inv, of i p] RegenerationEffect show ?thesis by simp
  qed
next
  case (RegenerateCalled i p)
  with start_invariant [OF inv, of i p] show ?thesis by simp
next
  case (Settled k r)
  with settled_invariant [OF inv] show ?thesis by simp
next
  case (GenerateVariations w n i p)
  with started_invariant [OF inv] show ?thesis by (simp add: latch_variations_start)
next
  case (DuplicateImage w i)
  with started_invariant [OF inv] show ?thesis by (simp add: latch_duplicate_start)
next
  case (SaveImage i s)
  with started_invariant [OF inv] show ?thesis by (simp add: latch_save)
next
  case LoadSavedImages
  with started_invariant [OF inv] show ?thesis by (simp add: latch_save)
qed (use inv in \<open>simp_all add: latchInvariant_def regenerationsInFlight_alt latch_sync\<close>)

lemma reachable_invariant: "reachable c \<Longrightarrow> latchInvariant c"
proof (induction rule: reachable.induct)
  case (start st)
  then show ?case by (simp add: latchInvariant_def regenerationsInFlight_alt)
next
  case (after c e)
  then show ?case by (simp add: step_invariant)
qed

lemma config_page_same: "(c :: config)\<lparr>page := page c\<rparr> = c"
  by simp

lemma latched_call_ignored:
  "isRegeneratingRef (page c) \<Longrightarrow> step (RegenerateCalled i p) c = c"
  by (simp add: handleRegenerateSelectedImage_start_def started_nothing)

lemma latched_effect_ignored:
  "isRegeneratingRef (page c) \<Longrightarrow> step RegenerationEffect c = c"
  by (simp add: regenerationEffect_def started_nothing split: option.splits)

lemma free_call_starts:
  assumes "latchInvariant c" and "\<not> isRegeneratingRef (page c)"
  shows "regenerationsInFlight (step (RegenerateCalled i p) c) = 1"
  using assms
  by (simp add: latchInvariant_def regenerationsInFlight_alt handleRegenerateSelectedImage_start_def
        started_def isRegeneration_def)

lemma settled_releases:
  assumes "k < length (inflight c)" and "inflight c ! k = RegenerationPending i p"
  shows "\<not> isRegeneratingRef (page (step (Settled k (ImageResponse out)) c))"
  using assms by (simp add: latch_resume)

lemma ex_pending_eq:
  "ex_pending = \<lparr>page = ex_loading, inflight = [RegenerationPending ''a'' ''cat at night'']\<rparr>"
  by (simp add: ex_pending_def handlePromptInputChange_def debounceTimerFired_def started_def
        regenerationEffect_def handleRegenerateSelectedImage_start_def truthy_def trim_def
        isWhiteSpace_def find_image_def ex_loading_def ex_typed_def ex_defs)

section \<open>Lemmas on the handlers\<close>

lemma trim_empty_iff: "trim s = [] \<longleftrightarrow> (\<forall>ch\<in>set s. isWhiteSpace ch)"
proof -
  have "trim s = [] \<longleftrightarrow> (\<forall>ch\<in>set (dropWhile isWhiteSpace s). isWhiteSpace ch)"
    by (simp add: trim_def)
  also have "\<dots> \<longleftrightarrow> (\<forall>ch\<in>set s. isWhiteSpace ch)"
  proof
    assume all: "\<forall>ch\<in>set (dropWhile isWhiteSpace s). isWhiteSpace ch"
    have "dropWhile isWhiteSpace s = []"
    proof (rule ccontr)
      assume ne: "dropWhile isWhiteSpace s \<noteq> []"
      then have "\<not> isWhiteSpace (hd (dropWhile isWhiteSpace s))" by (rule hd_dropWhile)
      moreover from ne have "hd (dropWhile isWhiteSpace s) \<in> set (dropWhile isWhiteSpace s)"
        by (rule hd_in_set)
      ultimately show False using all by blast
    qed
    then show "\<forall>ch\<in>set s. isWhiteSpace ch" by simp
  next
    assume "\<forall>ch\<in>set s. isWhiteSpace ch"
    then show "\<forall>ch\<in>set (dropWhile isWhiteSpace s). isWhiteSpace ch"
      by (blast dest: set_dropWhileD)
  qed
  finally show ?thesis .
qed

lemma char_eq_code: "ch = d \<longleftrightarrow> (of_char ch :: nat) = of_char d"
  by simp

lemma isWhiteSpace_code: "isWhiteSpace ch \<longleftrightarrow> whiteSpaceCode (of_char ch)"
proof -
  have "isWhiteSpace ch \<longleftrightarrow>
          ch = CHR 0x09 \<or> ch = CHR 0x0A \<or> ch = CHR 0x0B \<or> ch = CHR 0x0C \<or> ch = CHR 0x0D \<or>
          ch = CHR '' '' \<or> ch = CHR 0xA0"
    by (simp add: isWhiteSpace_def)
  also have "\<dots> \<longleftrightarrow> whiteSpaceCode (of_char ch)"
    unfolding whiteSpaceCode_def char_eq_code [of ch] by simp
  finally show ?thesis .
qed

lemma blank_iff_trim: "blank s \<longleftrightarrow> trim s = []"
  by (simp add: blank_def trim_empty_iff isWhiteSpace_code list_all_iff)

lemma regenerationEffect_iff:
  assumes "selectedImageId st \<noteq> Some []"
  shows "((\<exists>sid. selectedImageId st = Some sid \<and>
             regenerationEffect st
               = handleRegenerateSelectedImage_start sid (debouncedPrompt st) st \<and>
             snd (regenerationEffect st) = [RegenerationPending sid (debouncedPrompt st)])
           \<longleftrightarrow> triggerCondition st) \<and>
         (regenerationEffect st = (st, []) \<longleftrightarrow> \<not> triggerCondition st)"
  using assms
  by (cases "selectedImageId st")
     (auto simp: regenerationEffect_def handleRegenerateSelectedImage_start_def truthy_def
           triggerCondition_def selectedEntity_def blank_iff_trim split: option.splits)

lemma reconciled_images:
  assumes "distinct (map id_img (images st))"
    and "distinct placeholderIds"
    and "\<forall>p\<in>set placeholderIds. truthy p"
    and "\<forall>r\<in>set results. \<not> resultFailed r \<longrightarrow> id_gen r \<notin> set placeholderIds"
  shows "images (handleGenerateVariations_resume parentPrompt placeholderIds (Returned results) st)
           = (if results \<noteq> [] \<and> truthy_opt (error_gen (hd results))
              then filter (\<lambda>img. id_img img \<notin> set placeholderIds)
                     (reconcile_spec parentPrompt placeholderIds results (images st))
              else reconcile_spec parentPrompt placeholderIds results (images st))"
  using reconcile_characterised [OF assms, of parentPrompt]
  by (simp add: handleGenerateVariations_resume_def)

lemma handleDuplicateImage_outcomes:
  "(find_image sourceId (images st) = None \<longrightarrow>
      handleDuplicateImage c uuid sourceId st
        = st\<lparr>error := Some ''Could not find the image to duplicate.''\<rparr>) \<and>
   (\<forall>sourceImage. find_image sourceId (images st) = Some sourceImage \<longrightarrow>
      handleDuplicateImage c (Returned []) sourceId st
        = st\<lparr>error := Some ''Failed to get image to duplicate.''\<rparr> \<and>
      (\<forall>m. handleDuplicateImage c (Threw m) sourceId st = st\<lparr>error := None\<rparr>) \<and>
      (\<forall>u. u \<noteq> [] \<longrightarrow>
         handleDuplicateImage c (Returned u) sourceId st
           = st\<lparr>error := None,
                images := images st @
                  [\<lparr>id_img = u,
                    src = src sourceImage,
                    prompt_img = prompt_img sourceImage,
                    position = clampPositionToBounds
                                 \<lparr>x = x (position sourceImage) + (150 + 25),
                                  y = y (position sourceImage)\<rparr> c 150,
                    parentId = Some sourceId,
                    isLoading = Some False,
                    isPlaceholder = Some False\<rparr>],
                selectedImageId := Some u\<rparr>))"
proof (intro conjI allI impI)
  assume "find_image sourceId (images st) = None"
  then show "handleDuplicateImage c uuid sourceId st
        = st\<lparr>error := Some ''Could not find the image to duplicate.''\<rparr>"
    by (simp add: handleDuplicateImage_def handleDuplicateImage_start_def)
next
  fix sourceImage
  assume "find_image sourceId (images st) = Some sourceImage"
  then show "handleDuplicateImage c (Returned []) sourceId st
        = st\<lparr>error := Some ''Failed to get image to duplicate.''\<rparr>"
    by (simp add: handleDuplicateImage_def handleDuplicateImage_start_def
          handleDuplicateImage_resume_def truthy_def Let_def)
next
  fix sourceImage m
  assume "find_image sourceId (images st) = Some sourceImage"
  then show "handleDuplicateImage c (Threw m) sourceId st = st\<lparr>error := None\<rparr>"
    by (simp add: handleDuplicateImage_def handleDuplicateImage_start_def
          handleDuplicateImage_resume_def Let_def)
next
  fix sourceImage and u :: string
  assume "find_image sourceId (images st) = Some sourceImage" and "u \<noteq> []"
  then show "handleDuplicateImage c (Returned u) sourceId st
           = st\<lparr>error := None,
                images := images st @
                  [\<lparr>id_img = u,
                    src = src sourceImage,
                    prompt_img = prompt_img sourceImage,
                    position = clampPositionToBounds
                                 \<lparr>x = x (position sourceImage) + (150 + 25),
                                  y = y (position sourceImage)\<rparr> c 150,
                    parentId = Some sourceId,
                    isLoading = Some False,
                    isPlaceholder = Some False\<rparr>],
                selectedImageId := Some u\<rparr>"
    by (simp add: handleDuplicateImage_def handleDuplicateImage_start_def
          handleDuplicateImage_resume_def truthy_def Let_def IMAGE_SIZE_def
          DUPLICATION_OFFSET_def add.assoc)
qed

lemma handleSaveImage_outcomes:
  "handleSaveImage_resume (Threw m) st = (st\<lparr>error := Some ''Failed to save image''\<rparr>, []) \<and>
   handleSaveImage_resume (Returned saveResult) st
     = (st\<lparr>isLoadingSavedImages := True\<rparr>, [CatalogPending])"
  by (simp add: handleSaveImage_resume_def loadSavedImagesForDropdown_start_def)

section \<open>Theorems\<close>

text \<open>
  C10: the position update stores the supplied position verbatim, without clamping: after
  the call every entity carrying the id has exactly the argument as its position and all its
  other fields as before, every other entity is unchanged, and so is the rest of the page
  state, the selection in particular. The container does not enter the function at all.
\<close>

theorem handleUpdatePosition_verbatim:
  "length (images (handleUpdatePosition i p st)) = length (images st) \<and>
   (\<forall>k < length (images st).
      (id_img (images st ! k) = i \<longrightarrow>
         images (handleUpdatePosition i p st) ! k = (images st ! k)\<lparr>position := p\<rparr> \<and>
         position (images (handleUpdatePosition i p st) ! k) = p) \<and>
      (id_img (images st ! k) \<noteq> i \<longrightarrow>
         images (handleUpdatePosition i p st) ! k = images st ! k)) \<and>
   handleUpdatePosition i p st = st\<lparr>images := images (handleUpdatePosition i p st)\<rparr> \<and>
   selectedImageId (handleUpdatePosition i p st) = selectedImageId st"
  by (simp add: handleUpdatePosition_def)

theorem handleUpdatePosition_verbatim_witness:
  "(0::nat) < length (images ex_canvas) \<and> id_img (images ex_canvas ! 0) = ''a'' \<and>
   position (images (handleUpdatePosition ''a'' \<lparr>x = - 500, y = 99999\<rparr> ex_canvas) ! 0)
     = \<lparr>x = - 500, y = 99999\<rparr> \<and>
   id_img (images ex_canvas ! 1) \<noteq> ''a'' \<and>
   images (handleUpdatePosition ''a'' \<lparr>x = - 500, y = 99999\<rparr> ex_canvas) ! 1 = ex_dog \<and>
   selectedImageId (handleUpdatePosition ''a'' \<lparr>x = - 500, y = 99999\<rparr> ex_canvas) = Some ''a''"
  using handleUpdatePosition_verbatim [of "''a''" "\<lparr>x = - 500, y = 99999\<rparr>" ex_canvas]
  by (simp add: ex_canvas_def ex_cat_def ex_dog_def)


text \<open>
  C3, as amended: when no result succeeded and the first result carries an error, the
  aggregate error \<^verbatim>\<open>Generation of variants failed\<close> is set and no entity with one of
  the fan-out's placeholder ids is left in the collection.
\<close>

theorem total_failure_first_error:
  assumes "\<forall>r\<in>set results. resultFailed r"
    and "results \<noteq> []"
    and "truthy_opt (error_gen (hd results))"
  shows "error (handleGenerateVariations_resume parentPrompt placeholderIds (Returned results) st)
           = Some ''Generation of variants failed'' \<and>
         (\<forall>img\<in>set (images (handleGenerateVariations_resume parentPrompt placeholderIds
                                 (Returned results) st)).
            id_img img \<notin> set placeholderIds)"
  using total_failure_cleanup [OF assms] .

theorem total_failure_first_error_witness:
  "map resultFailed [ex_err, ex_err, ex_err, ex_err] = [True, True, True, True] \<and>
   truthy_opt (error_gen (hd [ex_err, ex_err, ex_err, ex_err])) \<and>
   handleGenerateVariations_resume ''cat'' ex_pids (Returned [ex_err, ex_err, ex_err, ex_err])
       ex_fanout
     = ex_canvas\<lparr>error := Some ''Generation of variants failed''\<rparr>"
proof -
  have h1: "\<forall>r\<in>set [ex_err, ex_err, ex_err, ex_err]. resultFailed r"
    by (simp add: ex_defs resultFailed_def truthy_def truthy_opt_def)
  have h2: "[ex_err, ex_err, ex_err, ex_err] \<noteq> []" by simp
  have h3: "truthy_opt (error_gen (hd [ex_err, ex_err, ex_err, ex_err]))"
    by (simp add: ex_defs truthy_def truthy_opt_def)
  have run: "handleGenerateVariations_resume ''cat'' ex_pids
       (Returned [ex_err, ex_err, ex_err, ex_err]) ex_fanout
     = ex_canvas\<lparr>error := Some ''Generation of variants failed''\<rparr>"
    by (simp add: handleGenerateVariations_resume_def reconcile_def reconcileStep.simps ex_defs
          truthy_def truthy_opt_def enumerate_eq_zip upt_rec)
  from total_failure_first_error [OF h1 h2 h3, of "''cat''" ex_pids ex_fanout] run h1 h3
  show ?thesis by simp
qed

text \<open>
  C3 as stated fails: the handler looks for the error in the first result only. With a
  first result that has no url and no error, followed by errors, no result succeeded and
  three carry an error, yet no aggregate error is set; and when fewer results than
  placeholders come back, the placeholders beyond them stay in the collection.
\<close>

theorem aggregate_error_counterexample:
  "map resultFailed [ex_nourl, ex_err, ex_err, ex_err] = [True, True, True, True] \<and>
   map truthy_opt (map error_gen [ex_nourl, ex_err, ex_err, ex_err]) = [False, True, True, True] \<and>
   error ex_fanout = None \<and>
   error (handleGenerateVariations_resume ''cat'' ex_pids
            (Returned [ex_nourl, ex_err, ex_err, ex_err]) ex_fanout) = None \<and>
   handleGenerateVariations_resume ''cat'' ex_pids (Returned [ex_nourl, ex_err]) ex_fanout
     = ex_canvas\<lparr>images := [ex_cat, ex_dog, ex_slot ''a-placeholder-2-1700'' 0 100,
                              ex_slot ''a-placeholder-3-1700'' 270 100]\<rparr>"
  by (simp add: handleGenerateVariations_resume_def reconcile_def reconcileStep.simps ex_defs
        resultFailed_def truthy_def truthy_opt_def enumerate_eq_zip upt_rec)

text \<open>
  C1, as amended: when prompt augmentation fails (it reports an error or yields no
  variants), \<open>generateImageVariations\<close> returns one error pseudo-result, not four: a list
  of length one whose single element has an empty id, no url, the original prompt and a
  populated error field. The caller cleans up through its total-failure path: the
  aggregate error is set and no entity with one of the fan-out's placeholder ids is left.
\<close>

theorem augmentation_failure_single_error:
  assumes "augmentationFailed promptVariants"
  shows "length (generateImageVariations originalPrompt promptVariants ext) = 1 \<and>
         id_gen (hd (generateImageVariations originalPrompt promptVariants ext)) = [] \<and>
         imageUrl (hd (generateImageVariations originalPrompt promptVariants ext)) = None \<and>
         promptUsed (hd (generateImageVariations originalPrompt promptVariants ext))
           = Some originalPrompt \<and>
         truthy_opt (error_gen (hd (generateImageVariations originalPrompt promptVariants ext))) \<and>
         error (handleGenerateVariations_resume parentPrompt placeholderIds
                  (Returned (generateImageVariations originalPrompt promptVariants ext)) st)
           = Some ''Generation of variants failed'' \<and>
         (\<forall>img\<in>set (images (handleGenerateVariations_resume parentPrompt placeholderIds
                   (Returned (generateImageVariations originalPrompt promptVariants ext)) st)).
            id_img img \<notin> set placeholderIds)"
proof -
  from augmentation_failure_result [OF assms, of originalPrompt ext]
  obtain e where e: "e \<noteq> []"
    "generateImageVariations originalPrompt promptVariants ext =
       [\<lparr>id_gen = [], imageUrl = None, promptUsed = Some originalPrompt, error_gen = Some e\<rparr>]"
    by blast
  let ?r = "\<lparr>id_gen = [], imageUrl = None, promptUsed = Some originalPrompt, error_gen = Some e\<rparr>"
  have "\<forall>r\<in>set [?r]. resultFailed r" by (simp add: resultFailed_def truthy_def)
  moreover have "[?r] \<noteq> []" by simp
  moreover have "truthy_opt (error_gen (hd [?r]))" using e(1) by (simp add: truthy_opt_def truthy_def)
  ultimately have "error (handleGenerateVariations_resume parentPrompt placeholderIds (Returned [?r]) st)
           = Some ''Generation of variants failed'' \<and>
         (\<forall>img\<in>set (images (handleGenerateVariations_resume parentPrompt placeholderIds
                                 (Returned [?r]) st)).
            id_img img \<notin> set placeholderIds)"
    by (rule total_failure_cleanup)
  with e show ?thesis by (simp add: truthy_opt_def truthy_def)
qed

theorem augmentation_failure_single_error_witness:
  "augmentationFailed ex_pv_failed \<and>
   generateImageVariations ''cat'' ex_pv_failed ex_ext
     = [\<lparr>id_gen = [], imageUrl = None, promptUsed = Some ''cat'',
         error_gen = Some ''Prompt Variation Generation failed: quota exceeded''\<rparr>] \<and>
   error (handleGenerateVariations_resume ''cat'' ex_pids
            (Returned (generateImageVariations ''cat'' ex_pv_failed ex_ext)) ex_fanout)
     = Some ''Generation of variants failed'' \<and>
   images (handleGenerateVariations_resume ''cat'' ex_pids
            (Returned (generateImageVariations ''cat'' ex_pv_failed ex_ext)) ex_fanout)
     = [ex_cat, ex_dog]"
proof -
  have h: "augmentationFailed ex_pv_failed"
    by (simp add: ex_pv_failed_def getPromptVariants_def augmentationFailed_def)
  have g: "generateImageVariations ''cat'' ex_pv_failed ex_ext
     = [\<lparr>id_gen = [], imageUrl = None, promptUsed = Some ''cat'',
         error_gen = Some ''Prompt Variation Generation failed: quota exceeded''\<rparr>]"
    by (simp add: generateImageVariations_def ex_pv_failed_def getPromptVariants_def
          augmentationFailed_def truthy_opt_def truthy_def)
  have i: "images (handleGenerateVariations_resume ''cat'' ex_pids
            (Returned (generateImageVariations ''cat'' ex_pv_failed ex_ext)) ex_fanout)
     = [ex_cat, ex_dog]"
    unfolding g
    by (simp add: handleGenerateVariations_resume_def reconcile_def reconcileStep.simps ex_defs
          truthy_def truthy_opt_def enumerate_eq_zip upt_rec)
  from augmentation_failure_single_error [OF h, of "''cat''" ex_ext "''cat''" ex_pids ex_fanout] h g i
  show ?thesis by simp
qed

text \<open>
  C1 as stated fails: on a failed augmentation the returned list has one element, so it
  does not hold one pseudo-result per placeholder.
\<close>

theorem augmentation_failure_counterexample:
  "augmentationFailed ex_pv_failed \<and>
   length (generateImageVariations ''cat'' ex_pv_failed ex_ext) = 1 \<and>
   length (generateImageVariations ''cat'' ex_pv_failed ex_ext) \<noteq> 4"
  by (simp add: generateImageVariations_def ex_pv_failed_def getPromptVariants_def
        augmentationFailed_def truthy_opt_def truthy_def)






text \<open>
  C8: \<open>arrangeGrid\<close> is idempotent. On a non-empty collection and an unchanged container,
  arranging the arranged state gives the same state and the same required height as
  arranging once; and the position given to the entity at index \<open>k\<close> is \<open>gridPosition\<close>
  of the container width and \<open>k\<close>, whatever the collection holds.
\<close>

theorem arrangeGrid_idempotent:
  assumes "images st \<noteq> []"
  shows "handleArrangeGrid (Some c) (fst (handleArrangeGrid (Some c) st))
           = handleArrangeGrid (Some c) st \<and>
         (\<forall>k<length (images st).
            position (images (fst (handleArrangeGrid (Some c) st)) ! k)
              = gridPosition (offsetWidth c) k)"
proof -
  let ?st1 = "fst (handleArrangeGrid (Some c) st)"
  have i1: "images ?st1 = map (\<lambda>(i, img). img\<lparr>position := gridPosition (offsetWidth c) i\<rparr>)
                              (enumerate 0 (images st))"
    by (simp add: arrange_images [OF assms])
  then have len: "length (images ?st1) = length (images st)" by simp
  with assms have ne: "images ?st1 \<noteq> []" by (metis length_0_conv)
  have "fst (handleArrangeGrid (Some c) ?st1) = ?st1"
    unfolding arrange_images [OF ne] i1 regrid
    by (simp add: arrange_images [OF assms])
  moreover have "snd (handleArrangeGrid (Some c) ?st1) = snd (handleArrangeGrid (Some c) st)"
    using arrange_height [OF assms len] .
  ultimately have "handleArrangeGrid (Some c) ?st1 = handleArrangeGrid (Some c) st"
    by (simp add: prod_eq_iff)
  moreover have "\<forall>k<length (images st).
            position (images ?st1 ! k) = gridPosition (offsetWidth c) k"
    unfolding i1 by (simp add: nth_enumerate_eq)
  ultimately show ?thesis by simp
qed

theorem arrangeGrid_idempotent_witness:
  "images ex_canvas \<noteq> [] \<and>
   handleArrangeGrid (Some ex_container) ex_canvas = (ex_grid, Some 270) \<and>
   handleArrangeGrid (Some ex_container) ex_grid = (ex_grid, Some 270) \<and>
   gridPosition (offsetWidth ex_container) 0 = \<lparr>x = 70, y = 100\<rparr> \<and>
   gridPosition (offsetWidth ex_container) 1 = \<lparr>x = 240, y = 100\<rparr>"
proof -
  have h: "images ex_canvas \<noteq> []" by (simp add: ex_defs)
  have a: "handleArrangeGrid (Some ex_container) ex_canvas = (ex_grid, Some 270)"
    by (simp add: handleArrangeGrid_def Let_def IMAGE_SIZE_def GRID_GAP_def HEADER_HEIGHT_def
          ex_container_def ex_grid_def ex_defs enumerate_eq_zip upt_rec rat_rounding)
  have g: "gridPosition (offsetWidth ex_container) 0 = \<lparr>x = 70, y = 100\<rparr>"
    "gridPosition (offsetWidth ex_container) 1 = \<lparr>x = 240, y = 100\<rparr>"
    by (simp_all add: gridPosition_def Let_def ex_container_def rat_rounding)
  from arrangeGrid_idempotent [OF h, of ex_container] a
  have "handleArrangeGrid (Some ex_container) ex_grid = (ex_grid, Some 270)" by simp
  with h a g show ?thesis by simp
qed

text \<open>
  C4: at most one regeneration is in flight. In every configuration the page can reach,
  at most one regeneration is suspended, and one is suspended exactly when the latch is
  taken. While one is in flight, a further call of the regeneration handler, or a run of
  the debounce effect, also right after the debounce timer fired again, changes nothing
  and starts nothing. When a suspended regeneration settles, whatever it settles to (a
  result with a url, a result without one, a rejection), the latch is free afterwards, no
  regeneration is in flight, and the next call starts one.
\<close>

theorem regeneration_latch:
  assumes "reachable c"
  shows "regenerationsInFlight c \<le> 1 \<and>
         (isRegeneratingRef (page c) \<longleftrightarrow> regenerationsInFlight c = 1) \<and>
         (regenerationsInFlight c = 1 \<longrightarrow>
            (\<forall>i p. step (RegenerateCalled i p) c = c) \<and>
            step RegenerationEffect c = c \<and>
            inflight (step RegenerationEffect (step DebounceTimerFired c)) = inflight c) \<and>
         (\<forall>k i p out. k < length (inflight c) \<and> inflight c ! k = RegenerationPending i p \<longrightarrow>
            \<not> isRegeneratingRef (page (step (Settled k (ImageResponse out)) c)) \<and>
            regenerationsInFlight (step (Settled k (ImageResponse out)) c) = 0 \<and>
            (\<forall>i' p'. regenerationsInFlight
                        (step (RegenerateCalled i' p') (step (Settled k (ImageResponse out)) c))
                      = 1))"
proof -
  from assms have inv: "latchInvariant c" by (rule reachable_invariant)
  then have one: "regenerationsInFlight c \<le> 1"
    and iff: "isRegeneratingRef (page c) \<longleftrightarrow> regenerationsInFlight c = 1"
    by (simp_all add: latchInvariant_def)
  have ignored: "regenerationsInFlight c = 1 \<longrightarrow>
            (\<forall>i p. step (RegenerateCalled i p) c = c) \<and>
            step RegenerationEffect c = c \<and>
            inflight (step RegenerationEffect (step DebounceTimerFired c)) = inflight c"
  proof
    assume "regenerationsInFlight c = 1"
    with iff have l: "isRegeneratingRef (page c)" by simp
    then have "isRegeneratingRef (page (step DebounceTimerFired c))"
      by (simp add: debounceTimerFired_def)
    then have "step RegenerationEffect (step DebounceTimerFired c) = step DebounceTimerFired c"
      by (rule latched_effect_ignored)
    then have "inflight (step RegenerationEffect (step DebounceTimerFired c)) = inflight c"
      by simp
    moreover from l have "\<forall>i p. step (RegenerateCalled i p) c = c"
      using latched_call_ignored by blast
    moreover from l have "step RegenerationEffect c = c"
      by (rule latched_effect_ignored)
    ultimately show "(\<forall>i p. step (RegenerateCalled i p) c = c) \<and>
            step RegenerationEffect c = c \<and>
            inflight (step RegenerationEffect (step DebounceTimerFired c)) = inflight c"
      by blast
  qed
  have released: "\<forall>k i p out. k < length (inflight c) \<and> inflight c ! k = RegenerationPending i p \<longrightarrow>
            \<not> isRegeneratingRef (page (step (Settled k (ImageResponse out)) c)) \<and>
            regenerationsInFlight (step (Settled k (ImageResponse out)) c) = 0 \<and>
            (\<forall>i' p'. regenerationsInFlight
                        (step (RegenerateCalled i' p') (step (Settled k (ImageResponse out)) c))
                      = 1)"
  proof (intro allI impI)
    fix k i p out
    assume a: "k < length (inflight c) \<and> inflight c ! k = RegenerationPending i p"
    let ?c' = "step (Settled k (ImageResponse out)) c"
    have inv': "latchInvariant ?c'" using inv by (rule step_invariant)
    from a have free: "\<not> isRegeneratingRef (page ?c')" by (simp add: latch_resume)
    with inv' have zero: "regenerationsInFlight ?c' = 0" by (simp add: latchInvariant_def)
    from free_call_starts [OF inv' free]
    have "\<forall>i' p'. regenerationsInFlight (step (RegenerateCalled i' p') ?c') = 1" by simp
    with free zero show "\<not> isRegeneratingRef (page ?c') \<and> regenerationsInFlight ?c' = 0 \<and>
            (\<forall>i' p'. regenerationsInFlight (step (RegenerateCalled i' p') ?c') = 1)" by simp
  qed
  from one iff ignored released show ?thesis by blast
qed

theorem regeneration_latch_witness:
  "reachable ex_pending \<and> regenerationsInFlight ex_pending = 1 \<and>
   isRegeneratingRef (page ex_pending) \<and>
   step (RegenerateCalled ''b'' ''dog at night'') ex_pending = ex_pending \<and>
   inflight (step RegenerationEffect (step DebounceTimerFired
               (step (PromptInputChange ''cat at dawn'') ex_pending)))
     = [RegenerationPending ''a'' ''cat at night''] \<and>
   (0::nat) < length (inflight ex_pending) \<and>
   inflight ex_pending ! 0 = RegenerationPending ''a'' ''cat at night'' \<and>
   \<not> isRegeneratingRef (page (step (Settled 0 (ImageResponse (Returned ex_generated))) ex_pending)) \<and>
   \<not> isRegeneratingRef (page (step (Settled 0 (ImageResponse (Returned ex_err))) ex_pending)) \<and>
   \<not> isRegeneratingRef (page (step (Settled 0 (ImageResponse (Threw None))) ex_pending)) \<and>
   regenerationsInFlight (step (RegenerateCalled ''b'' ''dog at night'')
      (step (Settled 0 (ImageResponse (Threw None))) ex_pending)) = 1"
proof -
  have r0: "reachable \<lparr>page = ex_canvas, inflight = []\<rparr>"
    by (rule reachable.start) (simp add: ex_defs)
  have r: "reachable ex_pending"
    unfolding ex_pending_def by (intro reachable.after r0)
  have r2: "reachable (step (PromptInputChange ''cat at dawn'') ex_pending)"
    by (intro reachable.after r)
  have n: "regenerationsInFlight ex_pending = 1"
    by (simp add: ex_pending_eq regenerationsInFlight_def)
  have n2: "regenerationsInFlight (step (PromptInputChange ''cat at dawn'') ex_pending) = 1"
    by (simp add: ex_pending_eq regenerationsInFlight_def)
  have i: "inflight (step (PromptInputChange ''cat at dawn'') ex_pending)
             = [RegenerationPending ''a'' ''cat at night'']"
    by (simp add: ex_pending_eq)
  have k: "(0::nat) < length (inflight ex_pending)"
    "inflight ex_pending ! 0 = RegenerationPending ''a'' ''cat at night''"
    by (simp_all add: ex_pending_eq)
  note t = regeneration_latch [OF r]
  note t2 = regeneration_latch [OF r2]
  from t n have a: "isRegeneratingRef (page ex_pending)"
    "step (RegenerateCalled ''b'' ''dog at night'') ex_pending = ex_pending" by simp_all
  from t2 n2 i have b: "inflight (step RegenerationEffect (step DebounceTimerFired
               (step (PromptInputChange ''cat at dawn'') ex_pending)))
     = [RegenerationPending ''a'' ''cat at night'']" by simp
  from t k have c:
    "\<And>out. \<not> isRegeneratingRef (page (step (Settled 0 (ImageResponse out)) ex_pending))"
    "\<And>out i' p'. regenerationsInFlight
        (step (RegenerateCalled i' p') (step (Settled 0 (ImageResponse out)) ex_pending)) = 1"
    by blast+
  from r n a b k c show ?thesis by simp
qed

text \<open>
  C2: reconciliation of a variation fan-out. The functional update itself does what the
  claim says for each result (lemmas \<open>reconcile_characterised\<close> and
  \<open>reconciled_images\<close>): a failed result removes its placeholder, a successful one
  replaces it in place, a result whose placeholder is gone is skipped. The claim's last
  part does not hold on the code. With four placeholders and the results error, success,
  error, success, the two successes become real entities and the two failed placeholders
  are gone, but the aggregate error is set: the guard reads \<^verbatim>\<open>updateOccurred\<close> before
  the queued updater has assigned it, and \<^verbatim>\<open>results[0].error\<close> is set.
\<close>

theorem partial_success_aggregate_error:
  "map resultFailed [ex_err, ex_ok ''g1'', ex_err, ex_ok ''g3''] = [True, False, True, False] \<and>
   error ex_fanout = None \<and>
   handleGenerateVariations_resume ''cat'' ex_pids
       (Returned [ex_err, ex_ok ''g1'', ex_err, ex_ok ''g3'']) ex_fanout
     = ex_canvas\<lparr>error := Some ''Generation of variants failed'',
                  images := [ex_cat, ex_dog, ex_real ''g1'' 100 270, ex_real ''g3'' 270 100]\<rparr>"
  by (simp add: handleGenerateVariations_resume_def reconcile_def reconcileStep.simps ex_defs
        resultFailed_def truthy_def truthy_opt_def enumerate_eq_zip upt_rec)

text \<open>
  C5, as amended: when the debounced prompt settles to a value other than the one it
  held, a regeneration of the selected entity with the settled prompt is started if and
  only if (a) an entity is selected, (b) the settled prompt is not blank, (c) no
  regeneration is in flight and (d) the settled prompt differs from the selected entity's
  stored prompt; otherwise nothing is started. When it settles to the value it already
  held, the effect does not run and nothing is started. The empty string, which no entity
  carries as its id, is excluded as a selection.
\<close>

theorem debounce_settle_trigger:
  assumes "selectedImageId st \<noteq> Some []"
  shows "(prompt st \<noteq> debouncedPrompt st \<longrightarrow>
            ((\<exists>sid. selectedImageId st = Some sid \<and>
                 debouncedPromptSettles st
                   = handleRegenerateSelectedImage_start sid (prompt st) (debounceTimerFired st) \<and>
                 snd (debouncedPromptSettles st) = [RegenerationPending sid (prompt st)])
               \<longleftrightarrow> triggerCondition (debounceTimerFired st)) \<and>
            (debouncedPromptSettles st = (debounceTimerFired st, [])
               \<longleftrightarrow> \<not> triggerCondition (debounceTimerFired st))) \<and>
         (prompt st = debouncedPrompt st \<longrightarrow> debouncedPromptSettles st = (st, []))"
proof -
  have sel: "selectedImageId (debounceTimerFired st) = selectedImageId st"
    and deb: "debouncedPrompt (debounceTimerFired st) = prompt st"
    by (simp_all add: debounceTimerFired_def)
  from assms sel have "selectedImageId (debounceTimerFired st) \<noteq> Some []" by simp
  note eff = regenerationEffect_iff [OF this, unfolded sel deb]
  have changed: "prompt st \<noteq> debouncedPrompt st \<Longrightarrow>
      debouncedPromptSettles st = regenerationEffect (debounceTimerFired st)"
    by (simp add: debouncedPromptSettles_def Let_def deb)
  have same: "prompt st = debouncedPrompt st \<Longrightarrow> debouncedPromptSettles st = (st, [])"
    by (simp add: debouncedPromptSettles_def Let_def debounceTimerFired_def)
  from eff changed same show ?thesis by simp
qed

theorem debounce_settle_trigger_witness:
  "selectedImageId ex_edited \<noteq> Some [] \<and> prompt ex_edited \<noteq> debouncedPrompt ex_edited \<and>
   triggerCondition (debounceTimerFired ex_edited) \<and>
   debouncedPromptSettles ex_edited = (ex_loading, [RegenerationPending ''a'' ''cat at night'']) \<and>
   selectedImageId ex_blank \<noteq> Some [] \<and> prompt ex_blank \<noteq> debouncedPrompt ex_blank \<and>
   \<not> triggerCondition (debounceTimerFired ex_blank) \<and>
   debouncedPromptSettles ex_blank = (debounceTimerFired ex_blank, []) \<and>
   selectedImageId ex_canvas \<noteq> Some [] \<and> prompt ex_canvas = debouncedPrompt ex_canvas \<and>
   debouncedPromptSettles ex_canvas = (ex_canvas, [])"
proof -
  have h: "selectedImageId ex_edited \<noteq> Some []" "selectedImageId ex_blank \<noteq> Some []"
    "selectedImageId ex_canvas \<noteq> Some []"
    by (simp_all add: ex_edited_def ex_blank_def ex_defs)
  have p: "prompt ex_edited \<noteq> debouncedPrompt ex_edited"
    "prompt ex_blank \<noteq> debouncedPrompt ex_blank" "prompt ex_canvas = debouncedPrompt ex_canvas"
    by (simp_all add: ex_edited_def ex_blank_def ex_defs)
  have t: "triggerCondition (debounceTimerFired ex_edited)"
    by (simp add: triggerCondition_def selectedEntity_def debounceTimerFired_def ex_edited_def
          ex_defs find_image_def blank_def whiteSpaceCode_def)
  have n: "\<not> triggerCondition (debounceTimerFired ex_blank)"
    by (simp add: triggerCondition_def selectedEntity_def debounceTimerFired_def ex_blank_def
          ex_defs find_image_def blank_def whiteSpaceCode_def)
  have r: "handleRegenerateSelectedImage_start ''a'' ''cat at night'' (debounceTimerFired ex_edited)
            = (ex_loading, [RegenerationPending ''a'' ''cat at night''])"
    by (simp add: handleRegenerateSelectedImage_start_def debounceTimerFired_def ex_edited_def
          ex_loading_def ex_typed_def ex_defs)
  have s: "selectedImageId ex_edited = Some ''a''" "prompt ex_edited = ''cat at night''"
    by (simp_all add: ex_edited_def ex_defs)
  from debounce_settle_trigger [OF h(1)] p(1) t r s
  have a: "debouncedPromptSettles ex_edited = (ex_loading, [RegenerationPending ''a'' ''cat at night''])"
    by auto
  from debounce_settle_trigger [OF h(2)] p(2) n
  have b: "debouncedPromptSettles ex_blank = (debounceTimerFired ex_blank, [])" by blast
  from debounce_settle_trigger [OF h(3)] p(3)
  have c: "debouncedPromptSettles ex_canvas = (ex_canvas, [])" by blast
  from h p t n a b c show ?thesis by simp
qed

text \<open>
  C5 as stated fails. After a regeneration that failed, the selected entity keeps its old
  prompt while the debounced prompt holds the new one. When the user edits the prompt and
  returns to the same text before the timer fires, the prompt settles to the value already
  held: (a) to (d) all hold, and no regeneration is started.
\<close>

theorem debounce_settle_counterexample:
  "selectedEntity (debounceTimerFired ex_retyped) = Some ex_cat \<and>
   \<not> blank (debouncedPrompt (debounceTimerFired ex_retyped)) \<and>
   \<not> isRegeneratingRef (debounceTimerFired ex_retyped) \<and>
   debouncedPrompt (debounceTimerFired ex_retyped) \<noteq> prompt_img ex_cat \<and>
   triggerCondition (debounceTimerFired ex_retyped) \<and>
   debouncedPromptSettles ex_retyped = (ex_retyped, [])"
  by (simp add: triggerCondition_def selectedEntity_def debounceTimerFired_def
        debouncedPromptSettles_def Let_def ex_retyped_def ex_failed_def
        handlePromptInputChange_def handleRegenerateSelectedImage_resume_def
        ex_loading_def ex_typed_def ex_defs find_image_def blank_def whiteSpaceCode_def
        truthy_opt_def truthy_def)

text \<open>
  C7: duplication. For a missing source, an empty id and a non-empty id the handler does
  what the claim says (lemma \<open>handleDuplicateImage_outcomes\<close>). The call to
  \<^verbatim>\<open>generateUuid\<close> can also reject, and it is awaited outside any \<^verbatim>\<open>try\<close>: with
  the source present and the call rejecting, the handler ends there. The earlier error has
  been cleared, no user error is set, no entity is appended and the selection stays: neither
  of the two outcomes the claim allows.
\<close>

theorem duplicate_id_call_rejected:
  "find_image ''a'' (images ex_canvas) = Some ex_cat \<and>
   error (handleDuplicateImage (Some ex_container) (Threw (Some ''Failed to fetch'')) ''a''
            (ex_canvas\<lparr>error := Some ''Failed to arrange images''\<rparr>)) = None \<and>
   images (handleDuplicateImage (Some ex_container) (Threw (Some ''Failed to fetch'')) ''a''
            (ex_canvas\<lparr>error := Some ''Failed to arrange images''\<rparr>)) = [ex_cat, ex_dog] \<and>
   selectedImageId (handleDuplicateImage (Some ex_container) (Threw (Some ''Failed to fetch'')) ''a''
            (ex_canvas\<lparr>error := Some ''Failed to arrange images''\<rparr>)) = Some ''a''"
  by (simp add: handleDuplicateImage_def handleDuplicateImage_start_def
        handleDuplicateImage_resume_def find_image_def Let_def ex_defs)

text \<open>
  C9: saving. \<open>saveImageBlob\<close> reports every failure in the value it returns and raises
  on no path; the handler does not read that value. For a save whose download fails the
  capability reports \<^verbatim>\<open>Failed to download image from URL\<close>; the handler starts the
  catalog refresh, as the claim says, and sets no user-visible error, against the claim.
\<close>

theorem save_reported_error_dropped:
  "saveImageBlob ex_storage = Some ''Failed to download image from URL'' \<and>
   error ex_canvas = None \<and>
   handleSaveImage_resume (Returned (saveImageBlob ex_storage)) ex_canvas
     = (ex_canvas\<lparr>isLoadingSavedImages := True\<rparr>, [CatalogPending]) \<and>
   error (fst (handleSaveImage_resume (Returned (saveImageBlob ex_storage)) ex_canvas)) = None"
  by (simp add: handleSaveImage_resume_def loadSavedImagesForDropdown_start_def saveImageBlob_def
        ex_storage_def ex_defs)

end
